theory Spec2Isabelle
  imports Complex_Main
begin

section \<open>Conventions of the embedding\<close>

text \<open>
  The optimizers of \<^verbatim>\<open>circuit_toolkit/Optimizers.py\<close> compute with numpy and torch
  floating-point arrays. The embedding reads every floating-point number as the real number
  it stands for: rounding, overflow and underflow are not modelled. A one-dimensional array,
  and an array of shape \<open>(1, n)\<close>, is the list of its entries; any other two-dimensional
  array is the list of its rows, so an array without rows does not remember how many columns
  it has. The pseudo-random draws of a call (\<^verbatim>\<open>randn\<close>) are an argument of its model.

  What is modelled is where a computation leaves the real numbers. A Python exception is
  the outcome \<open>Raises\<close>. A numpy operation outside its real domain (a division by zero, a
  root of a negative number) raises nothing: numpy computes \<^verbatim>\<open>inf\<close> or \<^verbatim>\<open>nan\<close> and the
  call carries on with it. That is the outcome \<open>NonFinite\<close>; the model does not follow the
  call beyond that point.
\<close>

datatype exn = IndexError | ValueError | ZeroDivisionError | AttributeError | OverflowError
  | RuntimeError

datatype 'a outcome = Returns 'a | Raises exn | NonFinite

fun and_then :: "'a outcome \<Rightarrow> ('a \<Rightarrow> 'b outcome) \<Rightarrow> 'b outcome" where
  "and_then (Returns x) f = f x"
| "and_then (Raises e) f = Raises e"
| "and_then NonFinite f = NonFinite"

subsection \<open>Scalars\<close>

text \<open>numpy's \<^verbatim>\<open>sqrt\<close> and \<^verbatim>\<open>/\<close> on floating-point scalars and arrays.\<close>

definition np_sqrt :: "real \<Rightarrow> real outcome" where
  "np_sqrt x = (if x < 0 then NonFinite else Returns (sqrt x))"

definition np_divide :: "real \<Rightarrow> real \<Rightarrow> real outcome" where
  "np_divide x y = (if y = 0 then NonFinite else Returns (x / y))"

text \<open>\<^verbatim>\<open>math.sqrt\<close> and \<^verbatim>\<open>/\<close> on Python floats, which raise.\<close>

definition py_sqrt :: "real \<Rightarrow> real outcome" where
  "py_sqrt x = (if x < 0 then Raises ValueError else Returns (sqrt x))"

definition py_divide :: "real \<Rightarrow> real \<Rightarrow> real outcome" where
  "py_divide x y = (if y = 0 then Raises ZeroDivisionError else Returns (x / y))"

text \<open>
  \<^verbatim>\<open>x ** y\<close> on numpy floats: a positive base has every power; zero has the powers with a
  non-negative exponent; a negative base has the powers with an integral exponent only.
\<close>

definition np_power :: "real \<Rightarrow> real \<Rightarrow> real outcome" where
  "np_power x y =
     (if 0 < x then Returns (x powr y)
      else if x = 0 then (if 0 < y then Returns 0 else if y = 0 then Returns 1 else NonFinite)
      else if y = of_int \<lfloor>y\<rfloor> then Returns (x powi \<lfloor>y\<rfloor>)
      else NonFinite)"

subsection \<open>Arrays\<close>

type_synonym vec = "real list"
type_synonym mat = "real list list"

definition has_shape :: "nat \<Rightarrow> nat \<Rightarrow> mat \<Rightarrow> bool" where
  "has_shape r c X \<longleftrightarrow> length X = r \<and> (\<forall>row \<in> set X. length row = c)"

definition ncols :: "mat \<Rightarrow> nat" where
  "ncols X = (case X of [] \<Rightarrow> 0 | r # _ \<Rightarrow> length r)"

definition zeros :: "nat \<Rightarrow> vec" where
  "zeros n = replicate n 0"

definition eye :: "nat \<Rightarrow> mat" where
  "eye n = map (\<lambda>i. map (\<lambda>j. if i = j then 1 else 0) [0..<n]) [0..<n]"

definition dot :: "vec \<Rightarrow> vec \<Rightarrow> real" where
  "dot u v = sum_list (map2 (*) u v)"

text \<open>\<^verbatim>\<open>norm\<close> of numpy.linalg and \<^verbatim>\<open>torch.norm\<close> on a vector: the Euclidean norm.\<close>

definition norm2 :: "vec \<Rightarrow> real" where
  "norm2 u = sqrt (dot u u)"

definition col :: "mat \<Rightarrow> nat \<Rightarrow> vec" where
  "col X j = map (\<lambda>r. r ! j) X"

text \<open>The products \<^verbatim>\<open>u @ X\<close>, \<^verbatim>\<open>X @ u.T\<close>, \<^verbatim>\<open>X @ Y\<close> and \<^verbatim>\<open>u.T @ v\<close> of arrays whose shapes fit.\<close>

definition vec_mat :: "vec \<Rightarrow> mat \<Rightarrow> vec" where
  "vec_mat u X = map (\<lambda>j. dot u (col X j)) [0..<ncols X]"

definition mat_vec :: "mat \<Rightarrow> vec \<Rightarrow> vec" where
  "mat_vec X u = map (\<lambda>r. dot r u) X"

definition mat_mul :: "mat \<Rightarrow> mat \<Rightarrow> mat" where
  "mat_mul X Y = map (\<lambda>r. vec_mat r Y) X"

definition outer :: "vec \<Rightarrow> vec \<Rightarrow> mat" where
  "outer u v = map (\<lambda>a. map (\<lambda>b. a * b) v) u"

definition scale :: "real \<Rightarrow> vec \<Rightarrow> vec" where
  "scale c u = map (\<lambda>x. c * x) u"

definition mat_scale :: "real \<Rightarrow> mat \<Rightarrow> mat" where
  "mat_scale c X = map (scale c) X"

definition vec_add :: "vec \<Rightarrow> vec \<Rightarrow> vec" where
  "vec_add u v = map2 (+) u v"

definition vec_sub :: "vec \<Rightarrow> vec \<Rightarrow> vec" where
  "vec_sub u v = map2 (-) u v"

definition mat_add :: "mat \<Rightarrow> mat \<Rightarrow> mat" where
  "mat_add X Y = map2 vec_add X Y"

definition mat_sub :: "mat \<Rightarrow> mat \<Rightarrow> mat" where
  "mat_sub X Y = map2 vec_sub X Y"

text \<open>
  \<^verbatim>\<open>xs / d\<close> for an array \<open>xs\<close> and a scalar \<open>d\<close>: entry by entry, so that an empty array is
  divided by zero without harm and any entry divided by zero is \<^verbatim>\<open>inf\<close> or \<^verbatim>\<open>nan\<close>.
\<close>

definition np_div_vec :: "vec \<Rightarrow> real \<Rightarrow> vec outcome" where
  "np_div_vec xs d = (if xs \<noteq> [] \<and> d = 0 then NonFinite else Returns (map (\<lambda>x. x / d) xs))"

definition np_div_mat :: "mat \<Rightarrow> real \<Rightarrow> mat outcome" where
  "np_div_mat X d =
     (if (\<exists>row \<in> set X. row \<noteq> []) \<and> d = 0 then NonFinite
      else Returns (map (map (\<lambda>x. x / d)) X))"

text \<open>
  \<^verbatim>\<open>argsort\<close>: the indices of the entries in ascending order of the entries. numpy and torch
  promise no order among equal entries; the model keeps them in their order of appearance.
\<close>

definition argsort :: "vec \<Rightarrow> nat list" where
  "argsort xs = sort_key (\<lambda>i. xs ! i) [0..<length xs]"

text \<open>\<^verbatim>\<open>X[idx, :]\<close> and \<^verbatim>\<open>xs[idx]\<close> for an array of indices: every index has to exist.\<close>

definition take_rows :: "'a list \<Rightarrow> nat list \<Rightarrow> 'a list outcome" where
  "take_rows X idx =
     (if \<forall>i \<in> set idx. i < length X then Returns (map (\<lambda>i. X ! i) idx) else Raises IndexError)"

text \<open>
  \<^verbatim>\<open>w @ X\<close> for \<open>w\<close> of shape \<open>(1, k)\<close> and \<open>X\<close> with \<open>r\<close> rows: the product exists when
  \<open>k = r\<close>; the exception is what the backend raises otherwise (\<^verbatim>\<open>ValueError\<close> in numpy,
  \<^verbatim>\<open>RuntimeError\<close> in torch).
\<close>

definition matmul_row :: "exn \<Rightarrow> vec \<Rightarrow> mat \<Rightarrow> vec outcome" where
  "matmul_row e w X = (if length w = length X then Returns (vec_mat w X) else Raises e)"

text \<open>
  \<^verbatim>\<open>x + Y\<close> for \<open>x\<close> of shape \<open>(1, m)\<close> and \<open>Y\<close> of shape \<open>(r, n)\<close>, with numpy's and torch's
  broadcasting: \<open>x\<close> is added to every row when \<open>m = n\<close>; a single entry is added to every
  entry; a single column is added to every entry of \<open>x\<close>; other shapes do not fit.
\<close>

definition add_row :: "exn \<Rightarrow> nat \<Rightarrow> vec \<Rightarrow> mat \<Rightarrow> mat outcome" where
  "add_row e n x Y =
     (if length x = n then Returns (map (\<lambda>row. vec_add x row) Y)
      else if length x = 1 then Returns (map (\<lambda>row. map (\<lambda>y. hd x + y) row) Y)
      else if n = 1 then Returns (map (\<lambda>row. map (\<lambda>a. a + hd row) x) Y)
      else Raises e)"

text \<open>Python's \<^verbatim>\<open>xs[i]\<close> for an integer \<open>i\<close>: a negative index counts from the end.\<close>

definition py_index :: "'a list \<Rightarrow> int \<Rightarrow> 'a outcome" where
  "py_index xs i =
     (let n = int (length xs); j = (if i < 0 then n + i else i)
      in if 0 \<le> j \<and> j < n then Returns (xs ! nat j) else Raises IndexError)"

section \<open>Rank weights\<close>

text \<open>
  \<^verbatim>\<open>rankweight(lambda_, mu=None)\<close>. The slice assignment \<^verbatim>\<open>weights[:mu_int] = ...\<close> is
  written out: the slice has \<open>min mu_int lambda\<close> entries (for a negative \<open>mu_int\<close> it
  stops that many entries before the end), the right-hand side has one entry for each of
  \<^verbatim>\<open>arange(1, 1 + floor(mu))\<close>, and numpy accepts the assignment when the two lengths agree
  or the right-hand side has a single entry, which it then repeats; otherwise it raises
  \<^verbatim>\<open>ValueError\<close>. The logarithms are taken at \<open>mu + 1/2\<close> and at the positive integers of
  the range, and the range is empty unless \<open>1 \<le> mu\<close>, so no entry is the logarithm of a
  number that is not positive.
\<close>

definition rankweight :: "nat \<Rightarrow> real option \<Rightarrow> vec outcome" where
  "rankweight lambda mu_arg =
     (let mu = (case mu_arg of None \<Rightarrow> real lambda / 2 | Some m \<Rightarrow> m);
          mu_int = \<lfloor>mu\<rfloor>;
          slice_len = (if 0 \<le> mu_int then min (nat mu_int) lambda else nat (int lambda + mu_int));
          rhs = map (\<lambda>i. ln (mu + 1 / 2) - ln (real i)) [1..<1 + nat mu_int]
      in if length rhs = slice_len then
           and_then (Returns (rhs @ replicate (lambda - slice_len) 0))
             (\<lambda>weights. np_div_vec weights (sum_list weights))
         else if length rhs = 1 then
           and_then (Returns (replicate slice_len (hd rhs) @ replicate (lambda - slice_len) 0))
             (\<lambda>weights. np_div_vec weights (sum_list weights))
         else Raises ValueError)"

text \<open>The cutoff \<open>mu\<close> that a call works with: the argument, or half the population size.\<close>

definition cutoff_of :: "nat \<Rightarrow> real option \<Rightarrow> real" where
  "cutoff_of lambda mu_arg = (case mu_arg of None \<Rightarrow> real lambda / 2 | Some m \<Rightarrow> m)"

text \<open>The entry that \<^verbatim>\<open>log(mu + 1 / 2) - log(arange(...))\<close> holds for the integer \<open>i\<close>.\<close>

definition raw_weight :: "real \<Rightarrow> nat \<Rightarrow> real" where
  "raw_weight mu i = ln (mu + 1 / 2) - ln (real i)"

section \<open>The Cholesky evolution strategy\<close>

subsection \<open>The rank-one refresh of the factor pair\<close>

text \<open>
  Lines 115 to 121 of \<^verbatim>\<open>CholeskyCMAES.step_simple\<close>, as a function of \<open>c1\<close>, the path
  \<open>pc\<close> and the pair \<open>A\<close>, \<open>Ainv\<close>. Python reads \<^verbatim>\<open>x * M @ N\<close> as \<^verbatim>\<open>(x * M) @ N\<close>.
  \<^verbatim>\<open>normv\<close> is a numpy array of shape \<open>(1, 1)\<close>, so every division is numpy's and none
  raises.
\<close>

definition refresh :: "real \<Rightarrow> vec \<Rightarrow> mat \<Rightarrow> mat \<Rightarrow> (mat \<times> mat) outcome" where
  "refresh c p F G =
     (let v = vec_mat p G;
          normv = dot v v
      in and_then (np_sqrt (1 - c)) (\<lambda>a.
         and_then (np_divide a normv) (\<lambda>a_n.
         and_then (np_divide (normv * c) (1 - c)) (\<lambda>q.
         and_then (np_sqrt (1 + q)) (\<lambda>s.
         and_then (np_divide 1 a) (\<lambda>ia.
         and_then (np_divide ia normv) (\<lambda>ia_n.
         and_then (np_divide 1 s) (\<lambda>is.
           Returns (mat_add (mat_scale a F) (outer (scale (a_n * (s - 1)) v) p),
                    mat_sub (mat_scale ia G)
                      (outer (mat_vec (mat_scale (ia_n * (1 - is)) G) v) v))))))))))"

text \<open>
  Lines 268 to 274 of \<^verbatim>\<open>CholeskyCMAES_torch.step_simple\<close>. Here \<^verbatim>\<open>normv\<close> is a Python float
  (\<^verbatim>\<open>.item()\<close>) and the roots are \<^verbatim>\<open>math.sqrt\<close>, so a division by zero and a root of a
  negative number raise, in the order in which Python meets them.
\<close>

definition refresh_torch :: "real \<Rightarrow> vec \<Rightarrow> mat \<Rightarrow> mat \<Rightarrow> (mat \<times> mat) outcome" where
  "refresh_torch c p F G =
     (let v = vec_mat p G;
          normv = dot v v
      in and_then (py_divide (normv * c) (1 - c)) (\<lambda>q.
         and_then (py_sqrt (1 + q)) (\<lambda>sqrt_term.
         and_then (py_sqrt (1 - c)) (\<lambda>a.
         and_then (py_divide a normv) (\<lambda>a_n.
         and_then (py_divide 1 a) (\<lambda>ia.
         and_then (py_divide 1 (a * normv)) (\<lambda>i_an.
         and_then (py_divide 1 sqrt_term) (\<lambda>is.
           Returns (mat_add (mat_scale a F) (outer (scale (a_n * (sqrt_term - 1)) v) p),
                    mat_sub (mat_scale ia G)
                      (mat_scale (i_an * (1 - is)) (outer (mat_vec G v) v)))))))))))"

subsection \<open>The state of an engine\<close>

text \<open>
  The attributes of an instance. \<open>cma_noA\<close> is an instance of \<^verbatim>\<open>CholeskyCMAES_torch_noCMA\<close>;
  \<^verbatim>\<open>CholeskyCMAES\<close> and \<^verbatim>\<open>CholeskyCMAES_torch\<close> have the factor pair in addition.
  \<open>lambda\<close> is \<^verbatim>\<open>lambda_\<close> and \<open>u_istep\<close> is \<^verbatim>\<open>_istep\<close>. \<open>randz\<close> does not exist before the
  first call of \<^verbatim>\<open>step_simple\<close>. The torch classes also hold a device and a dtype, which
  the real numbers have no use for.
\<close>

record cma_noA =
  space_dimen :: nat
  maximize :: bool
  lambda :: nat
  mu :: nat
  weights :: vec
  mueff :: real
  sigma :: real
  cc :: real
  cs :: real
  c1 :: real
  damps :: real
  init_x :: "vec option"
  xmean :: vec
  xold :: vec
  pc :: vec
  ps :: vec
  eigeneval :: nat
  counteval :: nat
  update_crit :: real
  chiN :: real
  u_istep :: nat
  randz :: "mat option"

record cma = cma_noA +
  A :: mat
  Ainv :: mat

subsection \<open>Construction\<close>

text \<open>
  \<^verbatim>\<open>CholeskyCMAES.__init__\<close>. \<^verbatim>\<open>random_seed\<close> is not used by the source. With a dimension
  of zero the constructor raises: \<^verbatim>\<open>int\<close> of \<open>-inf\<close> when the population size is
  derived from the dimension, and \<^verbatim>\<open>1 / (4 * N)\<close> at the latest. \<^verbatim>\<open>optim_params\<close> replaces
  the defaults of \<open>cc\<close>, \<open>cs\<close> and \<open>c1\<close>; an overriding \<open>c1\<close> is a Python float, so that
  \<^verbatim>\<open>lambda_ / c1\<close> raises when it is zero. The quotients that define the defaults of \<open>cc\<close>,
  \<open>cs\<close> and \<open>c1\<close> have positive denominators.
\<close>

definition CholeskyCMAES_init ::
  "nat \<Rightarrow> nat option \<Rightarrow> real \<Rightarrow> vec option \<Rightarrow> real option \<Rightarrow> bool \<Rightarrow> (string \<rightharpoonup> real)
     \<Rightarrow> cma outcome" where
  "CholeskyCMAES_init N population_size init_sigma init_code Aupdate_freq maximize_arg optim_params =
     and_then
       (case population_size of
          None \<Rightarrow> if N = 0 then Raises OverflowError
                  else Returns (nat (4 + \<lfloor>3 * log 2 (real N)\<rfloor>))
        | Some n \<Rightarrow> Returns n) (\<lambda>lam.
     let mu_half = real lam / 2;
         raw = map (\<lambda>i. ln (mu_half + 1 / 2) - ln (real i)) [1..<1 + nat \<lfloor>mu_half\<rfloor>]
     in and_then (np_div_vec raw (sum_list raw)) (\<lambda>w.
        and_then (np_divide ((sum_list w)\<^sup>2) (sum_list (map (\<lambda>x. x\<^sup>2) w))) (\<lambda>mueff_v.
        let cc_v = (case optim_params ''cc'' of Some x \<Rightarrow> x | None \<Rightarrow> 4 / (real N + 4));
            cs_v = (case optim_params ''cs'' of Some x \<Rightarrow> x
                    | None \<Rightarrow> sqrt mueff_v / (sqrt mueff_v + sqrt (real N)));
            c1_v = (case optim_params ''c1'' of Some x \<Rightarrow> x | None \<Rightarrow> 2 / (real N + sqrt 2)\<^sup>2)
        in and_then (np_sqrt ((mueff_v - 1) / (real N + 1))) (\<lambda>root.
           and_then (case init_code of
                       None \<Rightarrow> Returns None
                     | Some x \<Rightarrow> if length x = N then Returns (Some x) else Raises ValueError)
             (\<lambda>init_x_v.
           and_then (case Aupdate_freq of
                       None \<Rightarrow> if c1_v = 0 \<or> N = 0 then Raises ZeroDivisionError
                               else Returns (real lam / c1_v / real N / 10)
                     | Some f \<Rightarrow> Returns (f * real lam)) (\<lambda>crit.
           if N = 0 then Raises ZeroDivisionError
           else Returns
             \<lparr>space_dimen = N, maximize = maximize_arg, lambda = lam, mu = nat \<lfloor>mu_half\<rfloor>,
              weights = w, mueff = mueff_v, sigma = init_sigma, cc = cc_v, cs = cs_v, c1 = c1_v,
              damps = 1 + cs_v + 2 * max 0 (root - 1), init_x = init_x_v,
              xmean = zeros N, xold = zeros N, pc = zeros N, ps = zeros N,
              eigeneval = 0, counteval = 0, update_crit = crit,
              chiN = sqrt (real N) * (1 - 1 / (4 * real N) + 1 / (21 * (real N)\<^sup>2)),
              u_istep = 0, randz = None, A = eye N, Ainv = eye N\<rparr>))))))"

text \<open>
  \<^verbatim>\<open>CholeskyCMAES_torch_noCMA.__init__\<close>: the same computation with \<^verbatim>\<open>math.log2\<close> and
  \<^verbatim>\<open>math.sqrt\<close>, which raise \<^verbatim>\<open>ValueError\<close>, and with \<^verbatim>\<open>reshape\<close>, which raises
  \<^verbatim>\<open>RuntimeError\<close>.
\<close>

definition CholeskyCMAES_torch_noCMA_init ::
  "nat \<Rightarrow> nat option \<Rightarrow> real \<Rightarrow> vec option \<Rightarrow> real option \<Rightarrow> bool \<Rightarrow> (string \<rightharpoonup> real)
     \<Rightarrow> cma_noA outcome" where
  "CholeskyCMAES_torch_noCMA_init N population_size init_sigma init_code Aupdate_freq maximize_arg
       optim_params =
     and_then
       (case population_size of
          None \<Rightarrow> if N = 0 then Raises ValueError
                  else Returns (nat (4 + \<lfloor>3 * log 2 (real N)\<rfloor>))
        | Some n \<Rightarrow> Returns n) (\<lambda>lam.
     let mu_half = real lam / 2;
         raw = map (\<lambda>i. ln (mu_half + 1 / 2) - ln (real i)) [1..<nat \<lfloor>mu_half\<rfloor> + 1]
     in and_then (np_div_vec raw (sum_list raw)) (\<lambda>w.
        and_then (np_divide ((sum_list w)\<^sup>2) (sum_list (map (\<lambda>x. x\<^sup>2) w))) (\<lambda>mueff_v.
        let cc_v = (case optim_params ''cc'' of Some x \<Rightarrow> x | None \<Rightarrow> 4 / (real N + 4));
            cs_v = (case optim_params ''cs'' of Some x \<Rightarrow> x
                    | None \<Rightarrow> sqrt mueff_v / (sqrt mueff_v + sqrt (real N)));
            c1_v = (case optim_params ''c1'' of Some x \<Rightarrow> x | None \<Rightarrow> 2 / (real N + sqrt 2)\<^sup>2)
        in and_then (py_sqrt ((mueff_v - 1) / (real N + 1))) (\<lambda>root.
           and_then (case init_code of
                       None \<Rightarrow> Returns None
                     | Some x \<Rightarrow> if length x = N then Returns (Some x) else Raises RuntimeError)
             (\<lambda>init_x_v.
           and_then (case Aupdate_freq of
                       None \<Rightarrow> if c1_v = 0 \<or> N = 0 then Raises ZeroDivisionError
                               else Returns (real lam / c1_v / real N / 10)
                     | Some f \<Rightarrow> Returns (f * real lam)) (\<lambda>crit.
           if N = 0 then Raises ZeroDivisionError
           else Returns
             \<lparr>space_dimen = N, maximize = maximize_arg, lambda = lam, mu = nat \<lfloor>mu_half\<rfloor>,
              weights = w, mueff = mueff_v, sigma = init_sigma, cc = cc_v, cs = cs_v, c1 = c1_v,
              damps = 1 + cs_v + 2 * max 0 (root - 1), init_x = init_x_v,
              xmean = zeros N, xold = zeros N, pc = zeros N, ps = zeros N,
              eigeneval = 0, counteval = 0, update_crit = crit,
              chiN = sqrt (real N) * (1 - 1 / (4 * real N) + 1 / (21 * (real N)\<^sup>2)),
              u_istep = 0, randz = None\<rparr>))))))"

text \<open>
  \<^verbatim>\<open>CholeskyCMAES_torch.__init__\<close> is the text of the constructor above with two more lines,
  which set \<open>A\<close> and \<open>Ainv\<close> to the identity.
\<close>

definition CholeskyCMAES_torch_init ::
  "nat \<Rightarrow> nat option \<Rightarrow> real \<Rightarrow> vec option \<Rightarrow> real option \<Rightarrow> bool \<Rightarrow> (string \<rightharpoonup> real)
     \<Rightarrow> cma outcome" where
  "CholeskyCMAES_torch_init N population_size init_sigma init_code Aupdate_freq maximize_arg
       optim_params =
     and_then (CholeskyCMAES_torch_noCMA_init N population_size init_sigma init_code Aupdate_freq
                 maximize_arg optim_params)
       (\<lambda>st. Returns (cma_noA.extend st (cma.fields (eye N) (eye N))))"

subsection \<open>One generation\<close>

text \<open>
  \<^verbatim>\<open>CholeskyCMAES.step_simple(scores, codes)\<close>; \<open>z\<close> is the array that \<^verbatim>\<open>randn(lambda_, N)\<close>
  draws. The call returns the new codes, and the model the instance after the call with
  them. The arrays of the instance have the shapes the constructor gave them, so that their
  sums and products are those of \<open>vec_add\<close> and \<open>vec_mat\<close>; what comes from the caller is
  checked the way numpy checks it. \<^verbatim>\<open>print\<close> and \<^verbatim>\<open>time.time\<close> do nothing to the call.
\<close>

definition CholeskyCMAES_step_simple :: "cma \<Rightarrow> vec \<Rightarrow> mat \<Rightarrow> mat \<Rightarrow> (cma \<times> mat) outcome" where
  "CholeskyCMAES_step_simple st scores codes z =
     (let code_sort_index = (if maximize st then argsort (map uminus scores) else argsort scores);
          best = take (mu st) code_sort_index
      in and_then
           (if u_istep st = 0 then
              (case init_x st of
                 None \<Rightarrow>
                   let select_n = length best
                   in and_then (np_div_vec (take select_n (weights st))
                                  (sum_list (take select_n (weights st)))) (\<lambda>temp_weight.
                      and_then (take_rows codes best) (\<lambda>chosen.
                      and_then (matmul_row ValueError temp_weight chosen) (\<lambda>m.
                        Returns (st\<lparr>xmean := m\<rparr>))))
               | Some x \<Rightarrow> Returns (st\<lparr>xmean := x\<rparr>))
            else
              and_then (take_rows codes best) (\<lambda>chosen.
              and_then (matmul_row ValueError (weights st) chosen) (\<lambda>m.
              and_then (case randz st of
                          None \<Rightarrow> Raises AttributeError
                        | Some rz \<Rightarrow> take_rows rz best) (\<lambda>zchosen.
              and_then (matmul_row ValueError (weights st) zchosen) (\<lambda>randzw.
              and_then (np_sqrt (cs st * (2 - cs st) * mueff st)) (\<lambda>k_s.
              and_then (np_sqrt (cc st * (2 - cc st) * mueff st)) (\<lambda>k_c.
              let ps_new = vec_add (scale (1 - cs st) (ps st)) (scale k_s randzw);
                  pc_new = vec_add (scale (1 - cc st) (pc st)) (vec_mat (scale k_c randzw) (A st))
              in and_then (np_divide (cs st) (damps st)) (\<lambda>rate.
                 and_then (np_divide (norm2 ps_new) (chiN st)) (\<lambda>ratio.
                 let st1 = st\<lparr>xold := xmean st, xmean := m, ps := ps_new, pc := pc_new,
                             sigma := sigma st * exp (rate * (ratio - 1))\<rparr>
                 in if real (counteval st) - real (eigeneval st) > update_crit st then
                      and_then (refresh (c1 st) pc_new (A st) (Ainv st)) (\<lambda>(F, G).
                        Returns (st1\<lparr>eigeneval := counteval st, A := F, Ainv := G\<rparr>))
                    else Returns st1)))))))))
           (\<lambda>st1.
              and_then (add_row ValueError (space_dimen st1) (xmean st1)
                          (mat_mul (mat_scale (sigma st1) z) (A st1))) (\<lambda>new_samples.
                Returns (st1\<lparr>randz := Some z, counteval := counteval st1 + lambda st1,
                             u_istep := u_istep st1 + 1\<rparr>, new_samples))))"

text \<open>
  \<^verbatim>\<open>CholeskyCMAES_torch.step_simple\<close>. The scalar arithmetic is Python's: \<^verbatim>\<open>math.sqrt\<close> and
  the quotient \<^verbatim>\<open>cs / damps\<close> raise; \<^verbatim>\<open>torch.norm(ps) / chiN\<close> is a tensor and does not.
\<close>

definition CholeskyCMAES_torch_step_simple ::
  "cma \<Rightarrow> vec \<Rightarrow> mat \<Rightarrow> mat \<Rightarrow> (cma \<times> mat) outcome" where
  "CholeskyCMAES_torch_step_simple st scores codes z =
     (let code_sort_index = (if maximize st then argsort (map uminus scores) else argsort scores);
          best = take (mu st) code_sort_index
      in and_then
           (if u_istep st = 0 then
              (case init_x st of
                 None \<Rightarrow>
                   let select_n = length best
                   in and_then (np_div_vec (take select_n (weights st))
                                  (sum_list (take select_n (weights st)))) (\<lambda>temp_weight.
                      and_then (take_rows codes best) (\<lambda>chosen.
                      and_then (matmul_row RuntimeError temp_weight chosen) (\<lambda>m.
                        Returns (st\<lparr>xmean := m\<rparr>))))
               | Some x \<Rightarrow> Returns (st\<lparr>xmean := x\<rparr>))
            else
              and_then (take_rows codes best) (\<lambda>chosen.
              and_then (matmul_row RuntimeError (weights st) chosen) (\<lambda>m.
              and_then (case randz st of
                          None \<Rightarrow> Raises AttributeError
                        | Some rz \<Rightarrow> take_rows rz best) (\<lambda>zchosen.
              and_then (matmul_row RuntimeError (weights st) zchosen) (\<lambda>randzw.
              and_then (py_sqrt (cs st * (2 - cs st) * mueff st)) (\<lambda>k_s.
              and_then (py_sqrt (cc st * (2 - cc st) * mueff st)) (\<lambda>k_c.
              let ps_new = vec_add (scale (1 - cs st) (ps st)) (scale k_s randzw);
                  pc_new = vec_add (scale (1 - cc st) (pc st)) (scale k_c (vec_mat randzw (A st)))
              in and_then (py_divide (cs st) (damps st)) (\<lambda>rate.
                 and_then (np_divide (norm2 ps_new) (chiN st)) (\<lambda>ratio.
                 let st1 = st\<lparr>xold := xmean st, xmean := m, ps := ps_new, pc := pc_new,
                             sigma := sigma st * exp (rate * (ratio - 1))\<rparr>
                 in if real (counteval st) - real (eigeneval st) > update_crit st then
                      and_then (refresh_torch (c1 st) pc_new (A st) (Ainv st)) (\<lambda>(F, G).
                        Returns (st1\<lparr>eigeneval := counteval st, A := F, Ainv := G\<rparr>))
                    else Returns st1)))))))))
           (\<lambda>st1.
              and_then (add_row RuntimeError (space_dimen st1) (xmean st1)
                          (mat_scale (sigma st1) (mat_mul z (A st1)))) (\<lambda>new_samples.
                Returns (st1\<lparr>randz := Some z, counteval := counteval st1 + lambda st1,
                             u_istep := u_istep st1 + 1\<rparr>, new_samples))))"

text \<open>
  \<^verbatim>\<open>CholeskyCMAES_torch_noCMA.step_simple\<close>: the text of the torch engine with the factor
  commented out of the path \<open>pc\<close> and of the samples, and without the refresh.
\<close>

definition CholeskyCMAES_torch_noCMA_step_simple ::
  "cma_noA \<Rightarrow> vec \<Rightarrow> mat \<Rightarrow> mat \<Rightarrow> (cma_noA \<times> mat) outcome" where
  "CholeskyCMAES_torch_noCMA_step_simple st scores codes z =
     (let code_sort_index = (if maximize st then argsort (map uminus scores) else argsort scores);
          best = take (mu st) code_sort_index
      in and_then
           (if u_istep st = 0 then
              (case init_x st of
                 None \<Rightarrow>
                   let select_n = length best
                   in and_then (np_div_vec (take select_n (weights st))
                                  (sum_list (take select_n (weights st)))) (\<lambda>temp_weight.
                      and_then (take_rows codes best) (\<lambda>chosen.
                      and_then (matmul_row RuntimeError temp_weight chosen) (\<lambda>m.
                        Returns (st\<lparr>xmean := m\<rparr>))))
               | Some x \<Rightarrow> Returns (st\<lparr>xmean := x\<rparr>))
            else
              and_then (take_rows codes best) (\<lambda>chosen.
              and_then (matmul_row RuntimeError (weights st) chosen) (\<lambda>m.
              and_then (case randz st of
                          None \<Rightarrow> Raises AttributeError
                        | Some rz \<Rightarrow> take_rows rz best) (\<lambda>zchosen.
              and_then (matmul_row RuntimeError (weights st) zchosen) (\<lambda>randzw.
              and_then (py_sqrt (cs st * (2 - cs st) * mueff st)) (\<lambda>k_s.
              and_then (py_sqrt (cc st * (2 - cc st) * mueff st)) (\<lambda>k_c.
              let ps_new = vec_add (scale (1 - cs st) (ps st)) (scale k_s randzw);
                  pc_new = vec_add (scale (1 - cc st) (pc st)) (scale k_c randzw)
              in and_then (py_divide (cs st) (damps st)) (\<lambda>rate.
                 and_then (np_divide (norm2 ps_new) (chiN st)) (\<lambda>ratio.
                   Returns (st\<lparr>xold := xmean st, xmean := m, ps := ps_new, pc := pc_new,
                               sigma := sigma st * exp (rate * (ratio - 1))\<rparr>))))))))))
           (\<lambda>st1.
              and_then (add_row RuntimeError (space_dimen st1) (xmean st1)
                          (mat_scale (sigma st1) z)) (\<lambda>new_samples.
                Returns (st1\<lparr>randz := Some z, counteval := counteval st1 + lambda st1,
                             u_istep := u_istep st1 + 1\<rparr>, new_samples))))"

subsection \<open>Comparing two engines\<close>

text \<open>The outcome of a call, seen through a function on what the call returns.\<close>

fun map_outcome :: "('a \<Rightarrow> 'b) \<Rightarrow> 'a outcome \<Rightarrow> 'b outcome" where
  "map_outcome f (Returns x) = Returns (f x)"
| "map_outcome f (Raises e) = Raises e"
| "map_outcome f NonFinite = NonFinite"

text \<open>
  The refresh condition of line 265, which is met from the second call on only: the first
  call takes the branch of the initialization.
\<close>

definition refresh_due :: "cma \<Rightarrow> bool" where
  "refresh_due st \<longleftrightarrow> u_istep st \<noteq> 0 \<and> real (counteval st) - real (eigeneval st) > update_crit st"

subsection \<open>A run\<close>



text \<open>
  The same loop with what it hands back to the caller: the instance after the last call and
  the codes of every call. \<open>refresh_never_due\<close> says of a run of the torch engine that no call
  of it meets the refresh condition.
\<close>

fun trace_CholeskyCMAES_torch ::
  "cma \<Rightarrow> (vec \<times> mat \<times> mat) list \<Rightarrow> (cma \<times> mat list) outcome" where
  "trace_CholeskyCMAES_torch st [] = Returns (st, [])"
| "trace_CholeskyCMAES_torch st ((scores, codes, z) # rest) =
     and_then (CholeskyCMAES_torch_step_simple st scores codes z) (\<lambda>(st', new_codes).
     and_then (trace_CholeskyCMAES_torch st' rest) (\<lambda>(st'', later_codes).
       Returns (st'', new_codes # later_codes)))"

fun trace_CholeskyCMAES_torch_noCMA ::
  "cma_noA \<Rightarrow> (vec \<times> mat \<times> mat) list \<Rightarrow> (cma_noA \<times> mat list) outcome" where
  "trace_CholeskyCMAES_torch_noCMA st [] = Returns (st, [])"
| "trace_CholeskyCMAES_torch_noCMA st ((scores, codes, z) # rest) =
     and_then (CholeskyCMAES_torch_noCMA_step_simple st scores codes z) (\<lambda>(st', new_codes).
     and_then (trace_CholeskyCMAES_torch_noCMA st' rest) (\<lambda>(st'', later_codes).
       Returns (st'', new_codes # later_codes)))"

fun refresh_never_due :: "cma \<Rightarrow> (vec \<times> mat \<times> mat) list \<Rightarrow> bool" where
  "refresh_never_due st [] = True"
| "refresh_never_due st ((scores, codes, z) # rest) =
     (\<not> refresh_due st
      \<and> (case CholeskyCMAES_torch_step_simple st scores codes z of
            Returns (st', new_codes) \<Rightarrow> refresh_never_due st' rest
          | Raises e \<Rightarrow> True
          | NonFinite \<Rightarrow> True))"

section \<open>The Hessian-preconditioned engine\<close>

text \<open>
  An instance of \<^verbatim>\<open>HessCMAES\<close> has the attributes of the Cholesky engine, the length of the
  ambient codes, and what \<^verbatim>\<open>set_Hessian\<close> stores. \<open>space_dimen\<close> is the cutoff that the
  constructor fixed.
\<close>

record hess_cma = cma +
  code_len :: nat
  eigvals :: "vec option"
  eigvects :: "mat option"
  scaling :: "vec option"

text \<open>\<^verbatim>\<open>eye(r, c)\<close>: ones on the diagonal of an array of \<open>r\<close> rows and \<open>c\<close> columns.\<close>

definition eye_rect :: "nat \<Rightarrow> nat \<Rightarrow> mat" where
  "eye_rect r c = map (\<lambda>i. map (\<lambda>j. if i = j then 1 else 0) [0..<c]) [0..<r]"

text \<open>
  \<^verbatim>\<open>HessCMAES.__init__\<close>: the constructor of the Cholesky engine in the dimension
  \<^verbatim>\<open>cutoff\<close>, which is \<^verbatim>\<open>space_dimen\<close> unless it is given. The path \<open>pc\<close> and the factor
  pair reach into the ambient space of dimension \<^verbatim>\<open>space_dimen\<close>, which the instance keeps
  as \<open>code_len\<close>. \<^verbatim>\<open>init_code\<close> is reshaped to a single row of any length.
\<close>

definition HessCMAES_init ::
  "nat \<Rightarrow> nat option \<Rightarrow> nat option \<Rightarrow> real \<Rightarrow> vec option \<Rightarrow> real option \<Rightarrow> bool
     \<Rightarrow> (string \<rightharpoonup> real) \<Rightarrow> hess_cma outcome" where
  "HessCMAES_init space_dimen_arg population_size cutoff_arg init_sigma init_code Aupdate_freq
       maximize_arg optim_params =
     (let N = (case cutoff_arg of None \<Rightarrow> space_dimen_arg | Some n \<Rightarrow> n)
      in and_then
       (case population_size of
          None \<Rightarrow> if N = 0 then Raises OverflowError
                  else Returns (nat (4 + \<lfloor>3 * log 2 (real N)\<rfloor>))
        | Some n \<Rightarrow> Returns n) (\<lambda>lam.
     let mu_half = real lam / 2;
         raw = map (\<lambda>i. ln (mu_half + 1 / 2) - ln (real i)) [1..<1 + nat \<lfloor>mu_half\<rfloor>]
     in and_then (np_div_vec raw (sum_list raw)) (\<lambda>w.
        and_then (np_divide ((sum_list w)\<^sup>2) (sum_list (map (\<lambda>x. x\<^sup>2) w))) (\<lambda>mueff_v.
        let cc_v = (case optim_params ''cc'' of Some x \<Rightarrow> x | None \<Rightarrow> 4 / (real N + 4));
            cs_v = (case optim_params ''cs'' of Some x \<Rightarrow> x
                    | None \<Rightarrow> sqrt mueff_v / (sqrt mueff_v + sqrt (real N)));
            c1_v = (case optim_params ''c1'' of Some x \<Rightarrow> x | None \<Rightarrow> 2 / (real N + sqrt 2)\<^sup>2)
        in and_then (np_sqrt ((mueff_v - 1) / (real N + 1))) (\<lambda>root.
           and_then (case Aupdate_freq of
                       None \<Rightarrow> if c1_v = 0 \<or> N = 0 then Raises ZeroDivisionError
                               else Returns (real lam / c1_v / real N / 10)
                     | Some f \<Rightarrow> Returns (f * real lam)) (\<lambda>crit.
           if N = 0 then Raises ZeroDivisionError
           else Returns
             \<lparr>space_dimen = N, maximize = maximize_arg, lambda = lam, mu = nat \<lfloor>mu_half\<rfloor>,
              weights = w, mueff = mueff_v, sigma = init_sigma, cc = cc_v, cs = cs_v, c1 = c1_v,
              damps = 1 + cs_v + 2 * max 0 (root - 1), init_x = init_code,
              xmean = zeros N, xold = zeros N, pc = zeros space_dimen_arg, ps = zeros N,
              eigeneval = 0, counteval = 0, update_crit = crit,
              chiN = sqrt (real N) * (1 - 1 / (4 * real N) + 1 / (21 * (real N)\<^sup>2)),
              u_istep = 0, randz = None, A = eye_rect N space_dimen_arg,
              Ainv = eye_rect space_dimen_arg N, code_len = space_dimen_arg,
              eigvals = None, eigvects = None, scaling = None\<rparr>))))))"

text \<open>
  An entry of an array that is stretched along an axis: numpy repeats the single entry of an
  axis of length one.
\<close>

definition stretched :: "'a list \<Rightarrow> nat \<Rightarrow> 'a" where
  "stretched xs i = (if length xs = 1 then xs ! 0 else xs ! i)"

text \<open>
  \<^verbatim>\<open>set_Hessian(eigvals, eigvects, cutoff=None, expon=1/2.5)\<close>. The first statement replaces
  the argument \<^verbatim>\<open>cutoff\<close> by \<open>space_dimen\<close>. \<open>eigvects\<close> is the list of the rows of the
  array, one column for each eigenvector. The two products are entry by entry, between a
  column of \<open>k\<close> scalings and the \<open>m\<close> rows of the transposed eigenvectors: numpy takes them
  when \<open>k = m\<close> or one of the two is one, and raises \<^verbatim>\<open>ValueError\<close> otherwise.
\<close>

definition set_Hessian :: "hess_cma \<Rightarrow> vec \<Rightarrow> mat \<Rightarrow> nat option \<Rightarrow> real \<Rightarrow> hess_cma outcome" where
  "set_Hessian st eigvals_arg eigvects_arg cutoff_arg expon =
     (let cutoff = space_dimen st;
          evals = take cutoff eigvals_arg;
          evects = map (take cutoff) eigvects_arg
      in and_then
           (foldr (\<lambda>x acc. and_then (np_power x (- expon)) (\<lambda>y.
                            and_then acc (\<lambda>ys. Returns (y # ys)))) evals (Returns []))
           (\<lambda>scal.
         let k = length scal;
             m = ncols evects;
             rows = (if k = 1 then m else k)
         in if k \<noteq> m \<and> k \<noteq> 1 \<and> m \<noteq> 1 then Raises ValueError
            else and_then
              (foldr (\<lambda>x acc. and_then (np_divide 1 x) (\<lambda>y.
                               and_then acc (\<lambda>ys. Returns (y # ys)))) scal (Returns []))
              (\<lambda>inv_scal.
                 Returns (st\<lparr>eigvals := Some evals, eigvects := Some evects, scaling := Some scal,
                   A := map (\<lambda>i. map (\<lambda>j. stretched scal i * stretched (evects ! j) i)
                                    [0..<length evects]) [0..<rows],
                   Ainv := map (\<lambda>j. map (\<lambda>i. stretched inv_scal i * stretched (evects ! j) i)
                                    [0..<rows]) [0..<length evects]\<rparr>))))"

section \<open>The spherical engine\<close>

text \<open>
  An instance of \<^verbatim>\<open>ZOHA_Sphere_lr_euclid\<close>. \<open>use_rankweight\<close> is the attribute
  \<^verbatim>\<open>rankweight\<close>. \<open>mulist\<close> does not exist before \<^verbatim>\<open>lr_schedule\<close> has set it, nor do
  \<open>mu_init\<close> and \<open>mu_final\<close>. \<open>xcur\<close> is the slice \<^verbatim>\<open>codes[0:1, :]\<close>, which has one row or
  none; \<open>xnew\<close> has shape \<open>(1, N)\<close>.
\<close>

record zoha =
  dimen :: nat
  B :: nat
  select_cutoff :: real
  sphere_norm :: real
  lr :: real
  tang_codes :: mat
  grad :: vec
  innerU :: mat
  outerV :: mat
  xcur :: mat
  xnew :: vec
  istep :: int
  maximize :: bool
  use_rankweight :: bool
  rankbasis :: bool
  mulist :: "vec option"
  mu_init :: "real option"
  mu_final :: "real option"

definition ZOHA_Sphere_lr_euclid_init ::
  "nat \<Rightarrow> nat \<Rightarrow> real \<Rightarrow> real \<Rightarrow> bool \<Rightarrow> bool \<Rightarrow> bool \<Rightarrow> real \<Rightarrow> zoha" where
  "ZOHA_Sphere_lr_euclid_init space_dimen_arg population_size select_size lr_arg maximize_arg
       rankweight_arg rankbasis_arg sphere_norm_arg =
     \<lparr>dimen = space_dimen_arg, B = population_size, select_cutoff = select_size,
      sphere_norm = sphere_norm_arg, lr = lr_arg,
      tang_codes = replicate population_size (zeros space_dimen_arg),
      grad = zeros space_dimen_arg,
      innerU = replicate population_size (zeros space_dimen_arg),
      outerV = replicate population_size (zeros space_dimen_arg),
      xcur = [zeros space_dimen_arg], xnew = zeros space_dimen_arg,
      istep = - 1, maximize = maximize_arg, use_rankweight = rankweight_arg,
      rankbasis = rankbasis_arg, mulist = None, mu_init = None, mu_final = None\<rparr>"

subsection \<open>The schedule of the perturbation scale\<close>

text \<open>\<^verbatim>\<open>linspace(a, b, n)\<close> for \<open>n \<ge> 0\<close>: \<open>n\<close> points from \<open>a\<close> to \<open>b\<close>, both included.\<close>

definition linspace :: "real \<Rightarrow> real \<Rightarrow> nat \<Rightarrow> vec" where
  "linspace a b n =
     (if n = 1 then [a] else map (\<lambda>i. a + real i * ((b - a) / (real n - 1))) [0..<n])"

text \<open>
  \<^verbatim>\<open>lr_schedule(n_gen=100, mode="inv", lim=(50, 7.33))\<close>; \<open>bounds\<close> is \<^verbatim>\<open>lim\<close>. A mode other than the three named
  ones sets \<open>mu_init\<close> and \<open>mu_final\<close> and leaves \<open>mulist\<close> as it was. \<^verbatim>\<open>linspace\<close> and
  \<^verbatim>\<open>logspace\<close> raise \<^verbatim>\<open>ValueError\<close> for a negative number of points; in the mode
  \<^verbatim>\<open>"inv"\<close> the range is empty then and \<^verbatim>\<open>mulist[0]\<close> raises.
\<close>

definition lr_schedule :: "zoha \<Rightarrow> int \<Rightarrow> string \<Rightarrow> real \<times> real \<Rightarrow> zoha outcome" where
  "lr_schedule st n_gen mode bounds =
     (if mode = ''inv'' then
        and_then (np_div_vec
                    (map (\<lambda>x. x / 180 * pi)
                       (map (\<lambda>i. 15 + 1 / (0.0017 * real i + 0.0146)) [1..<nat (n_gen + 1)]))
                    (sqrt (real (dimen st)))) (\<lambda>ms.
        and_then (py_index ms 0) (\<lambda>first.
        and_then (py_index ms (- 1)) (\<lambda>final.
          Returns (st\<lparr>mulist := Some ms, mu_init := Some first, mu_final := Some final\<rparr>))))
      else if mode = ''lin'' then
        (if n_gen < 0 then Raises ValueError
         else and_then (np_div_vec (map (\<lambda>x. x / 180 * pi) (linspace (fst bounds) (snd bounds) (nat n_gen)))
                          (sqrt (real (dimen st)))) (\<lambda>ms.
                Returns (st\<lparr>mulist := Some ms, mu_init := Some (fst bounds),
                            mu_final := Some (snd bounds)\<rparr>)))
      else if mode = ''exp'' then
        (if fst bounds \<le> 0 \<or> snd bounds \<le> 0 then NonFinite
         else if n_gen < 0 then Raises ValueError
         else and_then (np_div_vec
                          (map (\<lambda>x. x / 180 * pi)
                             (map (\<lambda>y. 10 powr y)
                                (linspace (log 10 (fst bounds)) (log 10 (snd bounds)) (nat n_gen))))
                          (sqrt (real (dimen st)))) (\<lambda>ms.
                Returns (st\<lparr>mulist := Some ms, mu_init := Some (fst bounds),
                            mu_final := Some (snd bounds)\<rparr>)))
      else Returns (st\<lparr>mu_init := Some (fst bounds), mu_final := Some (snd bounds)\<rparr>))"

text \<open>
  Line 532: the scale of the generation, \<^verbatim>\<open>mulist[istep + 1]\<close> while \<open>istep\<close> is below
  \<^verbatim>\<open>len(mulist) - 1\<close> and \<^verbatim>\<open>mulist[-1]\<close> from then on.
\<close>

definition scheduled_mu :: "vec \<Rightarrow> int \<Rightarrow> real outcome" where
  "scheduled_mu ms i =
     (if i < int (length ms) - 1 then py_index ms (i + 1) else py_index ms (- 1))"

subsection \<open>The weights of the individuals\<close>

text \<open>\<^verbatim>\<open>xs.argsort().argsort()\<close>: the rank of every entry in ascending order.\<close>

definition ranks :: "vec \<Rightarrow> nat list" where
  "ranks xs = argsort (map real (argsort xs))"

text \<open>
  Lines 482 to 492, the weights of the first generation. \<^verbatim>\<open>scores[0]\<close> raises on an empty
  array, and \<^verbatim>\<open>/ self.B\<close> is numpy's division of an array.
\<close>

definition first_weights :: "zoha \<Rightarrow> vec \<Rightarrow> vec outcome" where
  "first_weights st scores =
     (if \<not> use_rankweight st then
        and_then (py_index scores 0) (\<lambda>s0.
          np_div_vec (map (\<lambda>s. s - s0) scores) (real (B st)))
      else
        let code_rank = (if \<not> maximize st then ranks scores else ranks (map uminus scores))
        in and_then (rankweight (length code_rank) None) (\<lambda>raw_weights.
             take_rows raw_weights code_rank))"

text \<open>Lines 499 to 516, the weights of a later generation.\<close>

definition later_weights :: "zoha \<Rightarrow> vec \<Rightarrow> vec outcome" where
  "later_weights st scores =
     (if \<not> use_rankweight st then
        and_then (py_index scores 0) (\<lambda>s0.
          np_div_vec (map (\<lambda>s. s - s0) scores) (real (B st)))
      else
        let rankedscore = (if \<not> rankbasis st then drop 1 scores else scores);
            code_rank = (if \<not> maximize st then ranks rankedscore
                         else ranks (map uminus rankedscore))
        in and_then (rankweight (length code_rank) (Some (select_cutoff st))) (\<lambda>raw_weights.
           and_then (take_rows raw_weights code_rank) (\<lambda>ws.
             Returns (if \<not> rankbasis st then 0 # ws else ws))))"

subsection \<open>What the geometry module provides\<close>

text \<open>
  Modelled from the spec: \<^verbatim>\<open>renormalize\<close> of \<^verbatim>\<open>circuit_toolkit.geometry_utils\<close>, which
  the sources at hand import and do not contain. The specification says of it: "Finally
  renormalize every row to exactly radius r"; and of the same step on a single vector:
  "project it onto the sphere of radius r by rescaling to unit norm times r".
\<close>

definition renormalize :: "mat \<Rightarrow> real \<Rightarrow> mat outcome" where
  "renormalize X r =
     foldr (\<lambda>row acc. and_then (np_div_vec row (norm2 row)) (\<lambda>unit.
                       and_then acc (\<lambda>rest. Returns (map (\<lambda>x. x * r) unit # rest))))
       X (Returns [])"

subsection \<open>One generation\<close>

text \<open>
  \<^verbatim>\<open>ZOHA_Sphere_lr_euclid.step_simple(scores, codes, verbosity)\<close>; \<open>u\<close> is the array that
  \<^verbatim>\<open>randn(B, N)\<close> draws. \<^verbatim>\<open>SLERP\<close> and \<^verbatim>\<open>ExpMap\<close> belong to the geometry module as
  well; the specification names them and gives no formula, so they are arguments of the
  model. \<^verbatim>\<open>ang_dist\<close> only feeds \<^verbatim>\<open>print\<close>. With \<open>verbosity\<close>, the first \<^verbatim>\<open>print\<close> takes
  \<^verbatim>\<open>max(scores)\<close>, which raises on an empty array. The assignment to \<^verbatim>\<open>new_samples[1:, :]\<close>
  takes an array of \<open>B\<close> rows of \<open>N\<close> entries.
\<close>

definition ZOHA_Sphere_lr_euclid_step_simple ::
  "(mat \<Rightarrow> vec \<Rightarrow> real \<Rightarrow> vec outcome) \<Rightarrow> (vec \<Rightarrow> mat \<Rightarrow> mat outcome)
     \<Rightarrow> zoha \<Rightarrow> vec \<Rightarrow> mat \<Rightarrow> bool \<Rightarrow> mat \<Rightarrow> (zoha \<times> mat) outcome" where
  "ZOHA_Sphere_lr_euclid_step_simple SLERP ExpMap st scores codes verbosity u =
     (if verbosity \<and> scores = [] then Raises ValueError
      else and_then
        (if istep st = - 1 then
           and_then (first_weights st scores) (\<lambda>ws.
           and_then (matmul_row ValueError ws codes) (\<lambda>w_mean.
           and_then (np_div_vec w_mean (norm2 w_mean)) (\<lambda>unit.
             Returns (map (\<lambda>x. x * sphere_norm st) unit))))
         else
           and_then (later_weights st scores) (\<lambda>ws.
           and_then (matmul_row ValueError ws codes) (\<lambda>w_mean.
           and_then (np_div_vec w_mean (norm2 w_mean)) (\<lambda>unit.
             SLERP (take 1 codes) (map (\<lambda>x. x * sphere_norm st) unit) (lr st)))))
        (\<lambda>x_new.
           if dimen st \<noteq> length x_new then Raises ValueError
           else and_then (np_div_mat (map (\<lambda>row. scale (dot row x_new) x_new) u)
                            ((norm2 x_new)\<^sup>2)) (\<lambda>proj.
                let outer_v = mat_sub u proj
                in and_then (case mulist st of
                               None \<Rightarrow> Raises AttributeError
                             | Some ms \<Rightarrow> scheduled_mu ms (istep st)) (\<lambda>mu_g.
                   let tang = mat_scale mu_g outer_v
                   in and_then (ExpMap x_new tang) (\<lambda>mapped.
                      if \<not> has_shape (B st) (dimen st) mapped then Raises ValueError
                      else and_then (renormalize (x_new # mapped) (sphere_norm st)) (\<lambda>new_samples.
                        Returns (st\<lparr>xcur := take 1 codes, xnew := x_new, innerU := u,
                                   outerV := outer_v, tang_codes := tang,
                                   istep := istep st + 1\<rparr>, new_samples)))))))"

section \<open>Instances used as examples\<close>

text \<open>\<^verbatim>\<open>CholeskyCMAES(space_dimen=1, population_size=2)\<close>, as the constructor makes it.\<close>

definition cma_example :: cma where
  "cma_example =
     \<lparr>space_dimen = 1, maximize = True, lambda = 2, mu = 1, weights = [1], mueff = 1,
      sigma = 3, cc = 4 / 5, cs = 1 / 2, c1 = 2 / (1 + sqrt 2)\<^sup>2, damps = 3 / 2, init_x = None,
      xmean = [0], xold = [0], pc = [0], ps = [0], eigeneval = 0, counteval = 0,
      update_crit = 20, chiN = 67 / 84, u_istep = 0, randz = None, A = [[1]], Ainv = [[1]]\<rparr>"

text \<open>
  \<^verbatim>\<open>CholeskyCMAES(space_dimen=1, population_size=2, optim_params={"cs": 3})\<close>, as the
  constructor makes it.
\<close>

definition cs_override_example :: cma where
  "cs_override_example =
     \<lparr>space_dimen = 1, maximize = True, lambda = 2, mu = 1, weights = [1], mueff = 1,
      sigma = 3, cc = 4 / 5, cs = 3, c1 = 2 / (1 + sqrt 2)\<^sup>2, damps = 4, init_x = None,
      xmean = [0], xold = [0], pc = [0], ps = [0], eigeneval = 0, counteval = 0,
      update_crit = 20, chiN = 67 / 84, u_istep = 0, randz = None, A = [[1]], Ainv = [[1]]\<rparr>"

text \<open>
  \<^verbatim>\<open>CholeskyCMAES(space_dimen=1, population_size=2, optim_params={"cc": 0})\<close> after eleven
  generations: \<open>22\<close> evaluations are counted and the factor pair has not been refreshed yet.
  With \<open>cc = 0\<close> the path \<open>pc\<close> stays where the constructor put it, at zero. The mean, the
  path \<open>ps\<close>, the step size and the last draws depend on the run; they are those of a run
  whose draws and codes were all zero.
\<close>

definition frozen_path_example :: cma where
  "frozen_path_example =
     \<lparr>space_dimen = 1, maximize = True, lambda = 2, mu = 1, weights = [1], mueff = 1,
      sigma = 3 * exp (- (10 / 3)), cc = 0, cs = 1 / 2, c1 = 2 / (1 + sqrt 2)\<^sup>2, damps = 3 / 2,
      init_x = None, xmean = [0], xold = [0], pc = [0], ps = [0], eigeneval = 0,
      counteval = 22, update_crit = 20, chiN = 67 / 84, u_istep = 11, randz = Some [[0], [0]],
      A = [[1]], Ainv = [[1]]\<rparr>"

text \<open>\<^verbatim>\<open>HessCMAES(space_dimen=1, population_size=2)\<close>, as the constructor makes it.\<close>

definition hess_example :: hess_cma where
  "hess_example =
     \<lparr>space_dimen = 1, maximize = True, lambda = 2, mu = 1, weights = [1], mueff = 1,
      sigma = 3, cc = 4 / 5, cs = 1 / 2, c1 = 2 / (1 + sqrt 2)\<^sup>2, damps = 3 / 2, init_x = None,
      xmean = [0], xold = [0], pc = [0], ps = [0], eigeneval = 0, counteval = 0,
      update_crit = 20, chiN = 67 / 84, u_istep = 0, randz = None, A = [[1]], Ainv = [[1]],
      code_len = 1, eigvals = None, eigvects = None, scaling = None\<rparr>"

text \<open>
  A spherical engine in raw-score mode for codes of two entries, with a population of two
  and the radius one, as the constructor makes it.
\<close>

definition raw_mode_example :: zoha where
  "raw_mode_example = ZOHA_Sphere_lr_euclid_init 2 2 1 (3 / 2) True False False 1"


section \<open>Properties of the rank weights\<close>

lemma raw_weight_pos:
  assumes "1 \<le> i" "real i \<le> m"
  shows "0 < raw_weight m i"
proof -
  have "real i < m + 1 / 2" using assms by simp
  moreover have "0 < real i" using assms by simp
  ultimately have "ln (real i) < ln (m + 1 / 2)" by (simp add: ln_less_cancel_iff)
  then show ?thesis by (simp add: raw_weight_def)
qed

lemma raw_weight_decreasing:
  assumes "1 \<le> i" "i < j"
  shows "raw_weight m j < raw_weight m i"
proof -
  have "ln (real i) < ln (real j)" using assms by (simp add: ln_less_cancel_iff)
  then show ?thesis by (simp add: raw_weight_def)
qed

lemma floor_cutoff_bounds:
  assumes "1 \<le> m" "m \<le> real n"
  shows "1 \<le> nat \<lfloor>m\<rfloor>" "nat \<lfloor>m\<rfloor> \<le> n" "real (nat \<lfloor>m\<rfloor>) \<le> m" "0 \<le> \<lfloor>m\<rfloor>"
proof -
  have "1 \<le> \<lfloor>m\<rfloor>" using assms(1) by linarith
  then show "1 \<le> nat \<lfloor>m\<rfloor>" "0 \<le> \<lfloor>m\<rfloor>" by linarith+
  have "\<lfloor>m\<rfloor> \<le> int n" using assms(2) by linarith
  then show "nat \<lfloor>m\<rfloor> \<le> n" by linarith
  show "real (nat \<lfloor>m\<rfloor>) \<le> m" using \<open>1 \<le> \<lfloor>m\<rfloor>\<close> by (simp add: of_nat_nat)
qed

lemma sum_list_positive:
  fixes xs :: "real list"
  assumes "xs \<noteq> []" "\<And>x. x \<in> set xs \<Longrightarrow> 0 < x"
  shows "0 < sum_list xs"
  using assms
proof (induction xs)
  case Nil
  then show ?case by simp
next
  case (Cons x xs)
  have "0 \<le> sum_list xs" by (rule sum_list_nonneg) (use Cons.prems in force)
  moreover have "0 < x" using Cons.prems by simp
  ultimately show ?case by simp
qed

lemma sum_list_scaled: "sum_list (map (\<lambda>w. w / d) xs) = sum_list xs / (d::real)"
  by (induction xs) (simp_all add: add_divide_distrib)

lemma sum_list_zeros: "sum_list (replicate n (0::real)) = 0"
  by (induction n) simp_all

lemma raw_sum_pos:
  assumes "1 \<le> k" "real k \<le> m"
  shows "0 < sum_list (map (raw_weight m) [1..<1 + k])"
proof (rule sum_list_positive)
  show "map (raw_weight m) [1..<1 + k] \<noteq> []" using assms by simp
next
  fix x assume "x \<in> set (map (raw_weight m) [1..<1 + k])"
  then obtain i where "x = raw_weight m i" "1 \<le> i" "i \<le> k" by auto
  then show "0 < x" using assms raw_weight_pos [of i m] by simp
qed

lemma rankweight_valid_cutoff:
  assumes "1 \<le> cutoff_of n mu_arg" "cutoff_of n mu_arg \<le> real n"
  shows "rankweight n mu_arg =
           Returns (map (\<lambda>w. w / sum_list (map (raw_weight (cutoff_of n mu_arg)) [1..<1 + nat \<lfloor>cutoff_of n mu_arg\<rfloor>]))
                     (map (raw_weight (cutoff_of n mu_arg)) [1..<1 + nat \<lfloor>cutoff_of n mu_arg\<rfloor>]
                       @ replicate (n - nat \<lfloor>cutoff_of n mu_arg\<rfloor>) 0))"
proof -
  let ?mu = "cutoff_of n mu_arg"
  let ?k = "nat \<lfloor>?mu\<rfloor>"
  note b = floor_cutoff_bounds [OF assms]
  have pos: "0 < sum_list (map (raw_weight ?mu) [1..<1 + ?k])"
    using raw_sum_pos b by blast
  define R where "R = map (raw_weight ?mu) [1..<1 + ?k]"
  define W where "W = R @ replicate (n - ?k) 0"
  have pos: "0 < sum_list R"
    unfolding R_def using raw_sum_pos b by blast
  have raw: "map (\<lambda>i. ln (?mu + 1 / 2) - ln (real i)) [1..<1 + ?k] = R"
    by (simp add: raw_weight_def R_def)
  have lenR: "length R = ?k"
    unfolding R_def length_map length_upt by (rule add_diff_cancel_left')
  have sl: "(if 0 \<le> \<lfloor>?mu\<rfloor> then min ?k n else nat (int n + \<lfloor>?mu\<rfloor>)) = ?k"
    using b by simp
  have tot: "sum_list W = sum_list R"
    by (simp only: W_def sum_list_append sum_list_zeros add_0_right)
  have "rankweight n mu_arg = np_div_vec W (sum_list W)"
    unfolding rankweight_def cutoff_of_def [symmetric] Let_def raw sl lenR W_def [symmetric]
    by simp
  also have "\<dots> = Returns (map (\<lambda>w. w / sum_list R) W)"
    using pos by (simp add: np_div_vec_def tot)
  finally show ?thesis by (simp only: W_def R_def)
qed

text \<open>
  Claim C6. For a cutoff \<open>m\<close> with \<open>1 \<le> m \<le> n\<close> (given, or the default
  \<open>n / 2\<close>), \<open>rankweight\<close> returns a vector of length \<open>n\<close>. Its first
  \<open>\<lfloor>m\<rfloor>\<close> entries are a common positive multiple of \<open>log (m + 1/2) - log i\<close> for
  \<open>i = 1, ..., \<lfloor>m\<rfloor>\<close> and are positive, the others are zero; every entry is non-negative,
  the entries sum to one, and the non-zero entries decrease strictly with the rank.
\<close>

theorem rankweight_normalized_decreasing:
  assumes "1 \<le> cutoff_of n mu_arg" "cutoff_of n mu_arg \<le> real n"
  shows "\<exists>ws c. rankweight n mu_arg = Returns ws \<and> length ws = n \<and> 0 < c
           \<and> (\<forall>i < nat \<lfloor>cutoff_of n mu_arg\<rfloor>.
                 ws ! i = c * (ln (cutoff_of n mu_arg + 1 / 2) - ln (real (i + 1))) \<and> 0 < ws ! i)
           \<and> (\<forall>i. nat \<lfloor>cutoff_of n mu_arg\<rfloor> \<le> i \<and> i < n \<longrightarrow> ws ! i = 0)
           \<and> (\<forall>i < n. 0 \<le> ws ! i)
           \<and> sum_list ws = 1
           \<and> (\<forall>i j. i < j \<and> j < nat \<lfloor>cutoff_of n mu_arg\<rfloor> \<longrightarrow> ws ! j < ws ! i)"
proof -
  let ?mu = "cutoff_of n mu_arg"
  let ?k = "nat \<lfloor>?mu\<rfloor>"
  note b = floor_cutoff_bounds [OF assms]
  define R where "R = map (raw_weight ?mu) [1..<1 + ?k]"
  define S where "S = sum_list R"
  define ws where "ws = map (\<lambda>w. w / S) (R @ replicate (n - ?k) 0)"
  have S: "0 < S" unfolding S_def R_def using raw_sum_pos b by blast
  have lenR: "length R = ?k"
    unfolding R_def length_map length_upt by (rule add_diff_cancel_left')
  have R_nth: "R ! i = raw_weight ?mu (i + 1)" if "i < ?k" for i
    using that unfolding R_def by (simp add: nth_map_upt del: upt_Suc)
  have run: "rankweight n mu_arg = Returns ws"
    unfolding ws_def S_def R_def by (rule rankweight_valid_cutoff [OF assms])
  have len: "length ws = n" using b lenR by (simp add: ws_def)
  have head: "ws ! i = (1 / S) * raw_weight ?mu (i + 1)" if "i < ?k" for i
    using that lenR R_nth by (simp add: ws_def nth_append)
  have tail: "ws ! i = 0" if "?k \<le> i" "i < n" for i
    using that lenR by (simp add: ws_def nth_append)
  have head_pos: "0 < ws ! i" if "i < ?k" for i
  proof -
    have "real (i + 1) \<le> ?mu" using that b(3) by linarith
    then have "0 < raw_weight ?mu (i + 1)" by (intro raw_weight_pos) simp_all
    then show ?thesis using S head [OF that] by simp
  qed
  have nonneg: "0 \<le> ws ! i" if "i < n" for i
    using head_pos [of i] tail [of i] that by (cases "i < ?k") (simp_all add: less_imp_le)
  have total: "sum_list ws = 1"
  proof -
    have "sum_list ws = sum_list (R @ replicate (n - ?k) 0) / S"
      unfolding ws_def by (rule sum_list_scaled)
    also have "\<dots> = S / S"
      by (simp only: sum_list_append sum_list_zeros add_0_right S_def)
    finally show ?thesis using S by simp
  qed
  have decr: "ws ! j < ws ! i" if "i < j" "j < ?k" for i j
  proof -
    have "raw_weight ?mu (j + 1) < raw_weight ?mu (i + 1)"
      using that by (intro raw_weight_decreasing) simp_all
    then show ?thesis using S that head [of i] head [of j]
      by (simp add: divide_strict_right_mono)
  qed
  have "0 < 1 / S" using S by simp
  with run len head head_pos tail nonneg total decr show ?thesis
    unfolding raw_weight_def by blast
qed

theorem rankweight_normalized_decreasing_witness:
  "1 \<le> cutoff_of 4 None \<and> cutoff_of 4 None \<le> real 4
   \<and> (\<exists>ws c. rankweight 4 None = Returns ws \<and> length ws = 4 \<and> 0 < c
           \<and> (\<forall>i < nat \<lfloor>cutoff_of 4 None\<rfloor>.
                 ws ! i = c * (ln (cutoff_of 4 None + 1 / 2) - ln (real (i + 1))) \<and> 0 < ws ! i)
           \<and> (\<forall>i. nat \<lfloor>cutoff_of 4 None\<rfloor> \<le> i \<and> i < 4 \<longrightarrow> ws ! i = 0)
           \<and> (\<forall>i < 4. 0 \<le> ws ! i)
           \<and> sum_list ws = 1
           \<and> (\<forall>i j. i < j \<and> j < nat \<lfloor>cutoff_of 4 None\<rfloor> \<longrightarrow> ws ! j < ws ! i))"
proof -
  have h1: "1 \<le> cutoff_of 4 None" by (simp add: cutoff_of_def)
  have h2: "cutoff_of 4 None \<le> real 4" by (simp add: cutoff_of_def)
  show ?thesis using h1 h2 rankweight_normalized_decreasing [OF h1 h2] by blast
qed

section \<open>The refresh keeps the factor pair inverse to each other\<close>

subsection \<open>Sums behind the array operations\<close>

lemma rank_one_core:
  fixes F G :: "nat \<Rightarrow> nat \<Rightarrow> real" and p :: "nat \<Rightarrow> real"
  assumes inv: "\<And>i j. i < n \<Longrightarrow> j < n \<Longrightarrow> (\<Sum>k<n. F i k * G k j) = (if i = j then 1 else 0)"
    and v: "\<And>j. j < n \<Longrightarrow> v j = (\<Sum>m<n. p m * G m j)"
    and nv: "nv = (\<Sum>l<n. v l * v l)"
    and i: "i < n" and j: "j < n"
  shows "(\<Sum>k<n. (a * F i k + b * v i * p k) * (ia * G k j - (\<Sum>l<n. (d * G k l) * v l) * v j))
         = a * ia * (if i = j then 1 else 0) + (b * ia - a * d - b * d * nv) * (v i * v j)"
proof -
  define u where "u k = (\<Sum>l<n. G k l * v l)" for k
  have Fu: "(\<Sum>k<n. F i k * u k) = v i"
  proof -
    have "(\<Sum>k<n. F i k * u k) = (\<Sum>k<n. \<Sum>l<n. F i k * G k l * v l)"
      by (simp add: u_def sum_distrib_left mult.assoc)
    also have "\<dots> = (\<Sum>l<n. \<Sum>k<n. F i k * G k l * v l)" by (rule sum.swap)
    also have "\<dots> = (\<Sum>l<n. (\<Sum>k<n. F i k * G k l) * v l)" by (simp add: sum_distrib_right)
    also have "\<dots> = (\<Sum>l<n. (if i = l then 1 else 0) * v l)"
      by (rule sum.cong) (simp_all add: inv i)
    also have "\<dots> = v i" using i by (simp add: if_distrib [of "\<lambda>x. x * _"] cong: if_cong)
    finally show ?thesis .
  qed
  have pG: "(\<Sum>k<n. p k * G k j) = v j" by (simp add: v j)
  have pu: "(\<Sum>k<n. p k * u k) = nv"
  proof -
    have "(\<Sum>k<n. p k * u k) = (\<Sum>k<n. \<Sum>l<n. p k * G k l * v l)"
      by (simp add: u_def sum_distrib_left mult.assoc)
    also have "\<dots> = (\<Sum>l<n. \<Sum>k<n. p k * G k l * v l)" by (rule sum.swap)
    also have "\<dots> = (\<Sum>l<n. (\<Sum>k<n. p k * G k l) * v l)" by (simp add: sum_distrib_right)
    also have "\<dots> = (\<Sum>l<n. v l * v l)" by (rule sum.cong) (simp_all add: v)
    finally show ?thesis by (simp add: nv)
  qed
  have du: "(\<Sum>l<n. (d * G k l) * v l) = d * u k" for k
    by (simp add: u_def sum_distrib_left mult.assoc)
  have "(\<Sum>k<n. (a * F i k + b * v i * p k) * (ia * G k j - (\<Sum>l<n. (d * G k l) * v l) * v j))
      = (\<Sum>k<n. a * ia * (F i k * G k j) - a * d * v j * (F i k * u k)
               + b * ia * v i * (p k * G k j) - b * d * v i * v j * (p k * u k))"
    unfolding du by (rule sum.cong) (simp_all add: algebra_simps)
  also have "\<dots> = a * ia * (\<Sum>k<n. F i k * G k j) - a * d * v j * (\<Sum>k<n. F i k * u k)
               + b * ia * v i * (\<Sum>k<n. p k * G k j) - b * d * v i * v j * (\<Sum>k<n. p k * u k)"
    by (simp only: sum.distrib sum_subtractf sum_distrib_left)
  also have "\<dots> = a * ia * (if i = j then 1 else 0) + (b * ia - a * d - b * d * nv) * (v i * v j)"
    unfolding Fu pG pu inv [OF i j] by (simp add: algebra_simps)
  finally show ?thesis .
qed

lemma refresh_scalars:
  fixes a s nv :: real
  assumes "a \<noteq> 0" "s \<noteq> 0" "nv \<noteq> 0"
  shows "(a / nv * (s - 1)) * (1 / a) - a * (1 / a / nv * (1 - 1 / s))
           - (a / nv * (s - 1)) * (1 / a / nv * (1 - 1 / s)) * nv = 0"
  using assms by (simp add: field_simps)

lemma dot_sum:
  assumes "length u = n" "length w = n"
  shows "dot u w = (\<Sum>k<n. u ! k * w ! k)"
proof -
  have "dot u w = (\<Sum>k = 0..<length (map2 (*) u w). map2 (*) u w ! k)"
    unfolding dot_def by (rule sum_list_sum_nth)
  also have "\<dots> = (\<Sum>k = 0..<n. u ! k * w ! k)"
    using assms by (intro sum.cong) simp_all
  finally show ?thesis by (simp add: lessThan_atLeast0)
qed

lemma has_shape_row: "has_shape r c X \<Longrightarrow> i < r \<Longrightarrow> length (X ! i) = c"
  by (simp add: has_shape_def)

lemma has_shape_ncols: "has_shape r c X \<Longrightarrow> 0 < r \<Longrightarrow> ncols X = c"
  by (cases X) (simp_all add: has_shape_def ncols_def)

lemma col_nth: "k < length X \<Longrightarrow> col X j ! k = X ! k ! j"
  by (simp add: col_def)

lemma length_col: "length (col X j) = length X"
  by (simp add: col_def)

lemma vec_mat_length: "has_shape r c X \<Longrightarrow> 0 < r \<Longrightarrow> length (vec_mat u X) = c"
  by (simp add: vec_mat_def has_shape_ncols)

lemma vec_mat_nth:
  assumes "has_shape r c X" "0 < r" "length u = r" "j < c"
  shows "vec_mat u X ! j = (\<Sum>k<r. u ! k * X ! k ! j)"
proof -
  have len: "length X = r" using assms(1) by (simp add: has_shape_def)
  have "vec_mat u X ! j = dot u (col X j)"
    using assms by (simp add: vec_mat_def has_shape_ncols)
  also have "\<dots> = (\<Sum>k<r. u ! k * col X j ! k)"
    using assms len by (intro dot_sum) (simp_all add: length_col)
  also have "\<dots> = (\<Sum>k<r. u ! k * X ! k ! j)"
    using len by (intro sum.cong) (simp_all add: col_nth)
  finally show ?thesis .
qed

lemma mat_vec_nth:
  assumes "has_shape r c X" "length u = c" "i < r"
  shows "mat_vec X u ! i = (\<Sum>l<c. X ! i ! l * u ! l)"
proof -
  have len: "length X = r" using assms(1) by (simp add: has_shape_def)
  have "mat_vec X u ! i = dot (X ! i) u" using assms len by (simp add: mat_vec_def)
  also have "\<dots> = (\<Sum>l<c. X ! i ! l * u ! l)"
    using assms by (intro dot_sum) (simp_all add: has_shape_row)
  finally show ?thesis .
qed

lemma mat_mul_shape:
  assumes "has_shape r m X" "has_shape m c Y" "0 < m"
  shows "has_shape r c (mat_mul X Y)"
  using assms by (auto simp: has_shape_def mat_mul_def vec_mat_def has_shape_ncols [OF assms(2,3)])

lemma mat_mul_nth:
  assumes "has_shape r m X" "has_shape m c Y" "0 < m" "i < r" "j < c"
  shows "mat_mul X Y ! i ! j = (\<Sum>k<m. X ! i ! k * Y ! k ! j)"
proof -
  have "length X = r" using assms(1) by (simp add: has_shape_def)
  then have "mat_mul X Y ! i = vec_mat (X ! i) Y" using assms by (simp add: mat_mul_def)
  then show ?thesis
    using vec_mat_nth [OF assms(2,3) has_shape_row [OF assms(1,4)] assms(5)] by simp
qed

lemma eye_shape: "has_shape n n (eye n)"
  by (auto simp: has_shape_def eye_def)

lemma eye_nth: "i < n \<Longrightarrow> j < n \<Longrightarrow> eye n ! i ! j = (if i = j then 1 else 0)"
  by (simp add: eye_def)

lemma mat_eqI:
  assumes "has_shape r c X" "has_shape r c Y"
    and "\<And>i j. i < r \<Longrightarrow> j < c \<Longrightarrow> X ! i ! j = Y ! i ! j"
  shows "X = Y"
proof (rule nth_equalityI)
  show "length X = length Y" using assms(1,2) by (simp add: has_shape_def)
next
  fix i assume "i < length X"
  then have i: "i < r" using assms(1) by (simp add: has_shape_def)
  show "X ! i = Y ! i"
  proof (rule nth_equalityI)
    show "length (X ! i) = length (Y ! i)"
      using has_shape_row [OF assms(1) i] has_shape_row [OF assms(2) i] by simp
  next
    fix j assume "j < length (X ! i)"
    then have "j < c" using has_shape_row [OF assms(1) i] by simp
    then show "X ! i ! j = Y ! i ! j" using assms(3) i by simp
  qed
qed

lemma refresh_ReturnsD:
  assumes "refresh c p F G = Returns (F', G')"
  shows "sqrt (1 - c) \<noteq> 0"
    and "sqrt (1 + dot (vec_mat p G) (vec_mat p G) * c / (1 - c)) \<noteq> 0"
    and "dot (vec_mat p G) (vec_mat p G) \<noteq> 0"
    and "F' = mat_add (mat_scale (sqrt (1 - c)) F)
                (outer (scale (sqrt (1 - c) / dot (vec_mat p G) (vec_mat p G)
                   * (sqrt (1 + dot (vec_mat p G) (vec_mat p G) * c / (1 - c)) - 1)) (vec_mat p G)) p)"
    and "G' = mat_sub (mat_scale (1 / sqrt (1 - c)) G)
                (outer (mat_vec (mat_scale (1 / sqrt (1 - c) / dot (vec_mat p G) (vec_mat p G)
                   * (1 - 1 / sqrt (1 + dot (vec_mat p G) (vec_mat p G) * c / (1 - c)))) G) (vec_mat p G))
                   (vec_mat p G))"
  using assms
  by (auto simp: refresh_def Let_def np_sqrt_def np_divide_def split: if_splits)

lemma refresh_Returns:
  assumes "0 \<le> c" "c < 1" "dot (vec_mat p G) (vec_mat p G) \<noteq> 0"
  shows "\<exists>F' G'. refresh c p F G = Returns (F', G')"
proof -
  have nn: "0 \<le> dot (vec_mat p G) (vec_mat p G)"
    unfolding dot_def by (rule sum_list_nonneg) (auto simp: zip_same)
  have "0 \<le> dot (vec_mat p G) (vec_mat p G) * c / (1 - c)" using assms nn by simp
  then have "0 < 1 + dot (vec_mat p G) (vec_mat p G) * c / (1 - c)" by linarith
  then show ?thesis
    using assms by (simp add: refresh_def Let_def np_sqrt_def np_divide_def)
qed

lemma mat_scale_shape: "has_shape r c X \<Longrightarrow> has_shape r c (mat_scale a X)"
  by (auto simp: has_shape_def mat_scale_def scale_def)

lemma outer_shape: "has_shape (length u) (length w) (outer u w)"
  by (auto simp: has_shape_def outer_def)

lemma mat_add_shape: "has_shape r c X \<Longrightarrow> has_shape r c Y \<Longrightarrow> has_shape r c (mat_add X Y)"
  by (auto simp: has_shape_def mat_add_def vec_add_def set_zip)

lemma mat_sub_shape: "has_shape r c X \<Longrightarrow> has_shape r c Y \<Longrightarrow> has_shape r c (mat_sub X Y)"
  by (auto simp: has_shape_def mat_sub_def vec_sub_def set_zip)

lemma mat_add_nth:
  "has_shape r c X \<Longrightarrow> has_shape r c Y \<Longrightarrow> i < r \<Longrightarrow> j < c \<Longrightarrow>
     mat_add X Y ! i ! j = X ! i ! j + Y ! i ! j"
  by (simp add: has_shape_def mat_add_def vec_add_def)

lemma mat_sub_nth:
  "has_shape r c X \<Longrightarrow> has_shape r c Y \<Longrightarrow> i < r \<Longrightarrow> j < c \<Longrightarrow>
     mat_sub X Y ! i ! j = X ! i ! j - Y ! i ! j"
  by (simp add: has_shape_def mat_sub_def vec_sub_def)

lemma mat_scale_nth:
  "has_shape r c X \<Longrightarrow> i < r \<Longrightarrow> j < c \<Longrightarrow> mat_scale a X ! i ! j = a * X ! i ! j"
  by (simp add: has_shape_def mat_scale_def scale_def)

lemma outer_nth: "i < length u \<Longrightarrow> j < length w \<Longrightarrow> outer u w ! i ! j = u ! i * w ! j"
  by (simp add: outer_def)

lemma mat_vec_length: "length (mat_vec X u) = length X"
  by (simp add: mat_vec_def)

lemma refresh_keeps_inverse:
  assumes F: "has_shape n n F" and G: "has_shape n n G" and p: "length p = n"
    and inv: "mat_mul F G = eye n"
    and ret: "refresh c p F G = Returns (F', G')"
  shows "has_shape n n F' \<and> has_shape n n G' \<and> mat_mul F' G' = eye n"
proof -
  define v where "v = vec_mat p G"
  define nv where "nv = dot v v"
  define a where "a = sqrt (1 - c)"
  define s where "s = sqrt (1 + nv * c / (1 - c))"
  define b where "b = a / nv * (s - 1)"
  define d where "d = 1 / a / nv * (1 - 1 / s)"
  note D = refresh_ReturnsD [OF ret, folded v_def, folded nv_def, folded a_def s_def,
      folded b_def d_def]
  have a0: "a \<noteq> 0" and s0: "s \<noteq> 0" and nv0: "nv \<noteq> 0" using D(1-3) by simp_all
  have n0: "0 < n"
  proof (rule ccontr)
    assume "\<not> 0 < n"
    then have "G = []" using G by (simp add: has_shape_def)
    then have "nv = 0" by (simp add: nv_def v_def vec_mat_def ncols_def dot_def)
    then show False using nv0 by simp
  qed
  have lv: "length v = n" unfolding v_def using vec_mat_length [OF G n0] .
  have vj: "v ! j = (\<Sum>m<n. p ! m * G ! m ! j)" if "j < n" for j
    unfolding v_def using vec_mat_nth [OF G n0 p that] .
  have nvs: "nv = (\<Sum>l<n. v ! l * v ! l)"
    unfolding nv_def using dot_sum [OF lv lv] .
  have FG: "(\<Sum>k<n. F ! i ! k * G ! k ! j) = (if i = j then 1 else 0)" if "i < n" "j < n" for i j
    using mat_mul_nth [OF F G n0 that] eye_nth [OF that] inv by simp
  have F': "F' = mat_add (mat_scale a F) (outer (scale b v) p)" using D(4) .
  have G': "G' = mat_sub (mat_scale (1 / a) G) (outer (mat_vec (mat_scale d G) v) v)" using D(5) .
  have lsv: "length (scale b v) = n" using lv by (simp add: scale_def)
  have o1: "has_shape n n (outer (scale b v) p)" using outer_shape [of "scale b v" p] lsv p by simp
  have lmv: "length (mat_vec (mat_scale d G) v) = n"
    using G by (simp add: mat_vec_length mat_scale_def has_shape_def)
  have o2: "has_shape n n (outer (mat_vec (mat_scale d G) v) v)"
    using outer_shape [of "mat_vec (mat_scale d G) v" v] lmv lv by simp
  have shF: "has_shape n n F'" unfolding F' by (intro mat_add_shape mat_scale_shape F o1)
  have shG: "has_shape n n G'" unfolding G' by (intro mat_sub_shape mat_scale_shape G o2)
  have F'ij: "F' ! i ! k = a * F ! i ! k + b * v ! i * p ! k" if "i < n" "k < n" for i k
  proof -
    have "scale b v ! i = b * v ! i" using that lv by (simp add: scale_def)
    then show ?thesis
      unfolding F' using that p lsv
      by (simp add: mat_add_nth [OF mat_scale_shape [OF F] o1] mat_scale_nth [OF F] outer_nth)
  qed
  have G'kj: "G' ! k ! j = 1 / a * G ! k ! j - (\<Sum>l<n. (d * G ! k ! l) * v ! l) * v ! j"
    if "k < n" "j < n" for k j
  proof -
    have "mat_vec (mat_scale d G) v ! k = (\<Sum>l<n. mat_scale d G ! k ! l * v ! l)"
      by (rule mat_vec_nth [OF mat_scale_shape [OF G] lv that(1)])
    also have "\<dots> = (\<Sum>l<n. (d * G ! k ! l) * v ! l)"
      using that(1) by (intro sum.cong) (simp_all add: mat_scale_nth [OF G])
    finally show ?thesis
      unfolding G' using that lv lmv
      by (simp add: mat_sub_nth [OF mat_scale_shape [OF G] o2] mat_scale_nth [OF G] outer_nth)
  qed
  have "mat_mul F' G' = eye n"
  proof (rule mat_eqI [OF mat_mul_shape [OF shF shG n0] eye_shape])
    fix i j assume i: "i < n" and j: "j < n"
    have "mat_mul F' G' ! i ! j = (\<Sum>k<n. F' ! i ! k * G' ! k ! j)"
      by (rule mat_mul_nth [OF shF shG n0 i j])
    also have "\<dots> = (\<Sum>k<n. (a * F ! i ! k + b * v ! i * p ! k)
                        * (1 / a * G ! k ! j - (\<Sum>l<n. (d * G ! k ! l) * v ! l) * v ! j))"
      using i j by (intro sum.cong) (simp_all add: F'ij G'kj)
    also have "\<dots> = a * (1 / a) * (if i = j then 1 else 0)
                      + (b * (1 / a) - a * d - b * d * nv) * (v ! i * v ! j)"
    proof (rule rank_one_core [where F = "\<lambda>i k. F ! i ! k" and G = "\<lambda>k j. G ! k ! j"
            and p = "\<lambda>k. p ! k" and v = "\<lambda>j. v ! j" and n = n])
      show "(\<Sum>k<n. F ! i ! k * G ! k ! j) = (if i = j then 1 else 0)" if "i < n" "j < n" for i j
        using FG that .
      show "v ! j = (\<Sum>m<n. p ! m * G ! m ! j)" if "j < n" for j using vj that .
      show "nv = (\<Sum>l<n. v ! l * v ! l)" by (rule nvs)
    qed (rule i, rule j)
    also have "\<dots> = (if i = j then 1 else 0)"
      using refresh_scalars [OF a0 s0 nv0] a0 unfolding b_def d_def by simp
    also have "\<dots> = eye n ! i ! j" using eye_nth [OF i j] by simp
    finally show "mat_mul F' G' ! i ! j = eye n ! i ! j" .
  qed
  with shF shG show ?thesis by simp
qed


subsection \<open>The torch refresh computes the same pair\<close>

lemma dot_scale_left: "dot (scale d u) w = d * dot u w"
proof -
  have "sum_list (map2 (*) (map (\<lambda>x. d * x) u) w) = d * sum_list (map2 (*) u w)"
  proof (induction u arbitrary: w)
    case Nil
    then show ?case by simp
  next
    case (Cons a u)
    then show ?case by (cases w) (simp_all add: algebra_simps)
  qed
  then show ?thesis by (simp add: dot_def scale_def)
qed

lemma mat_vec_scale: "mat_vec (mat_scale d X) u = scale d (mat_vec X u)"
  by (simp add: mat_vec_def mat_scale_def scale_def dot_scale_left [unfolded scale_def] o_def)

lemma outer_scale_left: "outer (scale d u) w = mat_scale d (outer u w)"
  by (simp add: outer_def mat_scale_def scale_def mult.assoc o_def)

lemma refresh_torch_Returns_iff:
  "refresh_torch c p F G = Returns X \<longleftrightarrow> refresh c p F G = Returns X"
proof -
  have eq: "1 / (a * nv) = 1 / a / nv" for a nv :: real by simp
  show ?thesis
    unfolding refresh_torch_def refresh_def Let_def np_sqrt_def np_divide_def py_sqrt_def
      py_divide_def mat_vec_scale outer_scale_left eq
    by (auto split: if_splits)
qed

text \<open>
  Claim C1, as amended. Let \<open>F\<close> and \<open>G\<close> be \<open>n\<close> by \<open>n\<close> with \<open>F G = I\<close>, let \<open>p\<close> be a
  path of length \<open>n\<close> whose normalizer \<open>v v\<^sup>T\<close>, \<open>v = p G\<close>, is not zero, and let the learning
  rate satisfy \<open>0 \<le> c < 1\<close>. Then the refresh of the numpy engine returns a pair \<open>F'\<close>, \<open>G'\<close>
  with \<open>F' G' = I\<close>, and so does the refresh of the torch engine.
\<close>

theorem refresh_keeps_factor_pair_inverse:
  assumes "has_shape n n F" and "has_shape n n G" and "length p = n"
    and "mat_mul F G = eye n"
    and "dot (vec_mat p G) (vec_mat p G) \<noteq> 0"
    and "0 \<le> c" and "c < 1"
  shows "(\<exists>F' G'. refresh c p F G = Returns (F', G') \<and> has_shape n n F' \<and> has_shape n n G'
            \<and> mat_mul F' G' = eye n)
       \<and> (\<exists>F' G'. refresh_torch c p F G = Returns (F', G') \<and> has_shape n n F' \<and> has_shape n n G'
            \<and> mat_mul F' G' = eye n)"
proof -
  obtain F' G' where ret: "refresh c p F G = Returns (F', G')"
    using refresh_Returns [OF assms(6,7,5)] by blast
  have keep: "has_shape n n F' \<and> has_shape n n G' \<and> mat_mul F' G' = eye n"
    by (rule refresh_keeps_inverse [OF assms(1-4) ret])
  have "refresh_torch c p F G = Returns (F', G')"
    using ret by (simp add: refresh_torch_Returns_iff)
  with ret keep show ?thesis by blast
qed

theorem refresh_keeps_factor_pair_inverse_witness:
  "has_shape 1 1 [[2]] \<and> has_shape 1 1 [[1 / 2]] \<and> length [1 :: real] = 1
   \<and> mat_mul [[2]] [[1 / 2]] = eye 1
   \<and> dot (vec_mat [1] [[1 / 2]]) (vec_mat [1] [[1 / 2]]) \<noteq> 0
   \<and> (0 :: real) \<le> 3 / 4 \<and> (3 / 4 :: real) < 1
   \<and> (\<exists>F' G'. refresh (3 / 4) [1] [[2]] [[1 / 2]] = Returns (F', G') \<and> has_shape 1 1 F'
          \<and> has_shape 1 1 G' \<and> mat_mul F' G' = eye 1)
   \<and> (\<exists>F' G'. refresh_torch (3 / 4) [1] [[2]] [[1 / 2]] = Returns (F', G') \<and> has_shape 1 1 F'
          \<and> has_shape 1 1 G' \<and> mat_mul F' G' = eye 1)"
proof -
  have h1: "has_shape 1 1 [[2]]" by (simp add: has_shape_def)
  have h2: "has_shape 1 1 [[1 / 2]]" by (simp add: has_shape_def)
  have h3: "length [1 :: real] = 1" by simp
  have h4: "mat_mul [[2]] [[1 / 2]] = eye 1"
    by (simp add: mat_mul_def vec_mat_def ncols_def dot_def col_def eye_def)
  have h5: "dot (vec_mat [1] [[1 / 2]]) (vec_mat [1] [[1 / 2]]) \<noteq> 0"
    by (simp add: vec_mat_def ncols_def dot_def col_def)
  have h6: "(0 :: real) \<le> 3 / 4" by simp
  have h7: "(3 / 4 :: real) < 1" by simp
  show ?thesis
    using h1 h2 h3 h4 h5 h6 h7 refresh_keeps_factor_pair_inverse [OF h1 h2 h3 h4 h5 h6 h7]
    by blast
qed

text \<open>
  Without the bound on the learning rate the claim fails. With \<open>c1 = 1\<close>, which
  \<^verbatim>\<open>optim_params\<close> can set, the pair is inverse before the refresh and the normalizer is one,
  and the refresh divides by \<open>1 - c1 = 0\<close>: no pair of real matrices comes back.
\<close>

theorem refresh_unit_learning_rate_counterexample:
  "has_shape 1 1 [[1]] \<and> length [1 :: real] = 1 \<and> mat_mul [[1]] [[1]] = eye 1
   \<and> dot (vec_mat [1] [[1]]) (vec_mat [1] [[1]]) \<noteq> 0
   \<and> refresh 1 [1] [[1]] [[1]] = NonFinite"
  by (simp add: has_shape_def mat_mul_def vec_mat_def ncols_def dot_def col_def eye_def
      refresh_def np_sqrt_def np_divide_def)

text \<open>
  Claim C2, as amended. The numpy refresh has no guard on the normalizer: whenever
  \<open>v v\<^sup>T = 0\<close> it divides by it, whatever the learning rate and the factor pair are. The
  outcome is neither an exception nor a pair of real matrices.
\<close>

theorem refresh_divides_by_zero_normalizer:
  assumes "dot (vec_mat p G) (vec_mat p G) = 0"
  shows "refresh c p F G = NonFinite"
  using assms by (simp add: refresh_def np_sqrt_def np_divide_def)

theorem refresh_divides_by_zero_normalizer_witness:
  "dot (vec_mat [0] [[1]]) (vec_mat [0] [[1]]) = 0 \<and> refresh (1 / 2) [0] [[1]] [[1]] = NonFinite"
proof -
  have h: "dot (vec_mat [0] [[1]]) (vec_mat [0] [[1]]) = 0"
    by (simp add: vec_mat_def ncols_def dot_def col_def)
  show ?thesis using h refresh_divides_by_zero_normalizer [OF h] by simp
qed

section \<open>The spherical engine: weights, schedule and radius\<close>

subsection \<open>Raw-score weights\<close>

text \<open>
  Claim C3, as amended. With the rank weights switched off, a non-empty array of scores and
  a population size \<open>B\<close> other than zero, the weight of an individual with the score \<open>s\<close>
  is \<open>(s - scores[0]) / B\<close> in the first and in every later generation: the score that is
  subtracted is the one of the first row, and \<open>B\<close> is the population size of the
  constructor.
\<close>

theorem raw_score_weights_relative_to_first:
  assumes "\<not> use_rankweight st" and "scores \<noteq> []" and "B st \<noteq> 0"
  shows "first_weights st scores = Returns (map (\<lambda>s. (s - scores ! 0) / real (B st)) scores)
       \<and> later_weights st scores = Returns (map (\<lambda>s. (s - scores ! 0) / real (B st)) scores)"
  using assms
  by (simp add: first_weights_def later_weights_def py_index_def np_div_vec_def)

theorem raw_score_weights_relative_to_first_witness:
  "\<not> use_rankweight raw_mode_example \<and> [1, 3 :: real] \<noteq> [] \<and> B raw_mode_example \<noteq> 0
   \<and> first_weights raw_mode_example [1, 3]
       = Returns (map (\<lambda>s. (s - [1, 3] ! 0) / real (B raw_mode_example)) [1, 3])
   \<and> later_weights raw_mode_example [1, 3]
       = Returns (map (\<lambda>s. (s - [1, 3] ! 0) / real (B raw_mode_example)) [1, 3])"
proof -
  have h1: "\<not> use_rankweight raw_mode_example"
    by (simp add: raw_mode_example_def ZOHA_Sphere_lr_euclid_init_def)
  have h2: "[1, 3 :: real] \<noteq> []" by simp
  have h3: "B raw_mode_example \<noteq> 0"
    by (simp add: raw_mode_example_def ZOHA_Sphere_lr_euclid_init_def)
  show ?thesis using h1 h2 h3 raw_score_weights_relative_to_first [OF h1 h2 h3] by blast
qed

text \<open>
  The claim subtracts the best score. For the scores \<open>1\<close> and \<open>3\<close> of a maximizing engine
  with \<open>B = 2\<close> that would give the weights \<open>-1\<close> and \<open>0\<close>; the source gives \<open>0\<close> and \<open>1\<close>.
\<close>

theorem raw_score_weights_best_score_counterexample:
  "\<not> use_rankweight raw_mode_example \<and> maximize raw_mode_example
   \<and> first_weights raw_mode_example [1, 3] = Returns [0, 1]
   \<and> later_weights raw_mode_example [1, 3] = Returns [0, 1]
   \<and> map (\<lambda>s. (s - Max (set [1, 3])) / real (B raw_mode_example)) [1, 3] = [- 1, 0]"
  by (simp add: raw_mode_example_def ZOHA_Sphere_lr_euclid_init_def first_weights_def
      later_weights_def py_index_def np_div_vec_def)

subsection \<open>The schedule\<close>

lemma py_index_in_range:
  assumes "xs \<noteq> []"
  shows "py_index xs (- 1) = Returns (last xs)"
    and "0 \<le> i \<Longrightarrow> i < int (length xs) \<Longrightarrow> py_index xs i = Returns (xs ! nat i)"
proof -
  have "nat (int (length xs) - 1) = length xs - 1" by simp
  then show "py_index xs (- 1) = Returns (last xs)"
    using assms by (simp add: py_index_def last_conv_nth)
  show "0 \<le> i \<Longrightarrow> i < int (length xs) \<Longrightarrow> py_index xs i = Returns (xs ! nat i)"
    by (simp add: py_index_def)
qed

lemma scheduled_mu_nonempty:
  assumes "ms \<noteq> []" and "- 1 \<le> g"
  shows "scheduled_mu ms g
           = Returns (if g < int (length ms) - 1 then ms ! nat (g + 1) else last ms)"
  using assms py_index_in_range [OF assms(1)] by (simp add: scheduled_mu_def)

lemma length_linspace: "length (linspace a b n) = n"
  by (simp add: linspace_def)

lemma np_div_vec_length: "np_div_vec xs d = Returns ys \<Longrightarrow> length ys = length xs"
  by (auto simp: np_div_vec_def split: if_splits)

lemma and_then_Returns:
  "and_then m f = Returns y \<longleftrightarrow> (\<exists>x. m = Returns x \<and> f x = Returns y)"
  by (cases m) simp_all

lemma lr_schedule_length:
  assumes "lr_schedule st0 n_gen mode bounds = Returns st"
    and "mode = ''inv'' \<or> mode = ''lin'' \<or> mode = ''exp''"
  shows "\<exists>ms. mulist st = Some ms \<and> length ms = nat n_gen"
proof -
  consider "mode = ''inv''" | "mode = ''lin''" | "mode = ''exp''" using assms(2) by blast
  then show ?thesis
  proof cases
    case 1
    then obtain ms where
      ms: "np_div_vec (map (\<lambda>x. x / 180 * pi)
             (map (\<lambda>i. 15 + 1 / (0.0017 * real i + 0.0146)) [1..<nat (n_gen + 1)]))
             (sqrt (real (dimen st0))) = Returns ms"
      and st: "mulist st = Some ms"
      using assms(1) by (auto simp: lr_schedule_def and_then_Returns)
    have "length ms = nat (n_gen + 1) - 1" using np_div_vec_length [OF ms] by simp
    then show ?thesis using st by (simp add: nat_diff_distrib' nat_add_distrib) 
  next
    case 2
    then obtain ms where
      ms: "np_div_vec (map (\<lambda>x. x / 180 * pi) (linspace (fst bounds) (snd bounds) (nat n_gen)))
             (sqrt (real (dimen st0))) = Returns ms"
      and st: "mulist st = Some ms"
      using assms(1) by (auto simp: lr_schedule_def and_then_Returns split: if_splits)
    show ?thesis using np_div_vec_length [OF ms] st by (simp add: length_linspace)
  next
    case 3
    then obtain ms where
      ms: "np_div_vec (map (\<lambda>x. x / 180 * pi) (map (\<lambda>y. 10 powr y)
             (linspace (log 10 (fst bounds)) (log 10 (snd bounds)) (nat n_gen))))
             (sqrt (real (dimen st0))) = Returns ms"
      and st: "mulist st = Some ms"
      using assms(1) by (auto simp: lr_schedule_def and_then_Returns split: if_splits)
    show ?thesis using np_div_vec_length [OF ms] st by (simp add: length_linspace)
  qed
qed

text \<open>
  Claim C10, as amended. Let \<^verbatim>\<open>lr_schedule\<close> have returned for at least one generation
  (\<open>1 \<le> n_gen\<close>) in one of its three modes, and let the engine still hold that schedule at
  a generation index \<open>istep \<ge> -1\<close>. Then the schedule has \<open>n_gen\<close> entries and the scale of
  the generation is read inside it: entry \<open>istep + 1\<close> while \<open>istep < n_gen - 1\<close>, the last
  entry from then on, in particular whenever \<open>istep\<close> has reached \<open>n_gen\<close>.
\<close>

theorem schedule_read_within_range:
  assumes "lr_schedule st0 n_gen mode bounds = Returns st1"
    and "mode = ''inv'' \<or> mode = ''lin'' \<or> mode = ''exp''"
    and "1 \<le> n_gen"
    and "mulist st = mulist st1"
    and "- 1 \<le> istep st"
  shows "\<exists>ms m. mulist st = Some ms \<and> length ms = nat n_gen
           \<and> scheduled_mu ms (istep st) = Returns m
           \<and> (istep st < n_gen - 1 \<longrightarrow> m = ms ! nat (istep st + 1))
           \<and> (n_gen - 1 \<le> istep st \<longrightarrow> m = last ms)"
proof -
  obtain ms where ms: "mulist st1 = Some ms" "length ms = nat n_gen"
    using lr_schedule_length [OF assms(1,2)] by blast
  have ne: "ms \<noteq> []" using ms(2) assms(3) by auto
  have len: "int (length ms) = n_gen" using ms(2) assms(3) by simp
  have "scheduled_mu ms (istep st)
          = Returns (if istep st < n_gen - 1 then ms ! nat (istep st + 1) else last ms)"
    using scheduled_mu_nonempty [OF ne assms(5)] unfolding len .
  then show ?thesis
    using ms assms(4) by auto
qed

theorem schedule_read_within_range_witness:
  "lr_schedule raw_mode_example 1 ''lin'' (50, 7.33)
     = Returns (raw_mode_example\<lparr>mulist := Some [50 / 180 * pi / sqrt 2],
                                  mu_init := Some 50, mu_final := Some 7.33\<rparr>)
   \<and> (\<exists>ms m. mulist (raw_mode_example\<lparr>mulist := Some [50 / 180 * pi / sqrt 2],
                       mu_init := Some 50, mu_final := Some 7.33, istep := 5\<rparr>) = Some ms
         \<and> length ms = nat 1
         \<and> scheduled_mu ms 5 = Returns m \<and> m = last ms)"
proof -
  let ?st1 = "raw_mode_example\<lparr>mulist := Some [50 / 180 * pi / sqrt 2],
                 mu_init := Some 50, mu_final := Some 7.33\<rparr>"
  have h1: "lr_schedule raw_mode_example 1 ''lin'' (50, 7.33) = Returns ?st1"
    by (simp add: lr_schedule_def linspace_def np_div_vec_def raw_mode_example_def
        ZOHA_Sphere_lr_euclid_init_def)
  have h2: "''lin'' = ''inv'' \<or> ''lin'' = ''lin'' \<or> ''lin'' = ''exp''" by simp
  have h3: "(1 :: int) \<le> 1" by simp
  have h4: "mulist (?st1\<lparr>istep := 5\<rparr>) = mulist ?st1" by simp
  have h5: "- 1 \<le> istep (?st1\<lparr>istep := 5\<rparr>)" by simp
  show ?thesis
    using h1 schedule_read_within_range [OF h1 h2 h3 h4 h5] by simp
qed

text \<open>
  Without a generation to schedule the claim fails: \<^verbatim>\<open>lr_schedule(n_gen=0, mode="lin")\<close>
  returns and leaves an empty schedule, and the first call of \<^verbatim>\<open>step_simple\<close> reads
  \<^verbatim>\<open>mulist[-1]\<close> out of range, whatever \<^verbatim>\<open>SLERP\<close> and \<^verbatim>\<open>ExpMap\<close> are.
\<close>

theorem empty_schedule_counterexample:
  "lr_schedule raw_mode_example 0 ''lin'' (50, 7.33)
     = Returns (raw_mode_example\<lparr>mulist := Some [], mu_init := Some 50, mu_final := Some 7.33\<rparr>)
   \<and> (\<forall>SLERP ExpMap.
        ZOHA_Sphere_lr_euclid_step_simple SLERP ExpMap
          (raw_mode_example\<lparr>mulist := Some [], mu_init := Some 50, mu_final := Some 7.33\<rparr>)
          [0, 2] [[1, 0], [0, 1]] True [[1, 0], [0, 1]] = Raises IndexError)"
  by (simp add: lr_schedule_def linspace_def np_div_vec_def raw_mode_example_def
      ZOHA_Sphere_lr_euclid_init_def ZOHA_Sphere_lr_euclid_step_simple_def first_weights_def
      py_index_def matmul_row_def vec_mat_def ncols_def dot_def col_def norm2_def
      np_div_mat_def scale_def scheduled_mu_def)

subsection \<open>The radius of the returned codes\<close>






lemma ZOHA_step_ReturnsD:
  assumes "ZOHA_Sphere_lr_euclid_step_simple SLERP ExpMap st scores codes verbosity u
             = Returns (st', Y)"
  shows "\<exists>x_new mapped outer_v tang.
           length x_new = dimen st \<and> has_shape (B st) (dimen st) mapped
         \<and> renormalize (x_new # mapped) (sphere_norm st) = Returns Y
         \<and> st' = st\<lparr>xcur := take 1 codes, xnew := x_new, innerU := u, outerV := outer_v,
                    tang_codes := tang, istep := istep st + 1\<rparr>"
  using assms
  unfolding ZOHA_Sphere_lr_euclid_step_simple_def Let_def
  by (auto simp: and_then_Returns split: if_splits option.splits)

lemma ZOHA_step_keeps_schedule:
  assumes "ZOHA_Sphere_lr_euclid_step_simple SLERP ExpMap st scores codes verbosity u
             = Returns (st', Y)"
  shows "mulist st' = mulist st \<and> istep st' = istep st + 1 \<and> B st' = B st
       \<and> dimen st' = dimen st \<and> sphere_norm st' = sphere_norm st"
  using ZOHA_step_ReturnsD [OF assms] by auto




section \<open>The factor pair that \<open>set_Hessian\<close> stores\<close>

lemma hess_example_constructed:
  "HessCMAES_init 1 (Some 2) None 3 None (Some 10) True Map.empty = Returns hess_example"
  by (simp add: HessCMAES_init_def hess_example_def np_div_vec_def np_divide_def np_sqrt_def
      zeros_def eye_rect_def Let_def)

lemma powers_of_positive:
  assumes "\<forall>x \<in> set xs. 0 < x"
  shows "foldr (\<lambda>x acc. and_then (np_power x e) (\<lambda>y. and_then acc (\<lambda>ys. Returns (y # ys))))
           xs (Returns []) = Returns (map (\<lambda>x. x powr e) xs)"
  using assms by (induction xs) (simp_all add: np_power_def)

lemma inverses_of_nonzero:
  assumes "\<forall>x \<in> set xs. x \<noteq> 0"
  shows "foldr (\<lambda>x acc. and_then (np_divide 1 x) (\<lambda>y. and_then acc (\<lambda>ys. Returns (y # ys))))
           xs (Returns []) = Returns (map (\<lambda>x. 1 / x) xs)"
  using assms by (induction xs) (simp_all add: np_divide_def)

lemma stretched_nth: "i < length xs \<Longrightarrow> stretched xs i = xs ! i"
  by (cases "length xs = 1") (simp_all add: stretched_def)

lemma set_Hessian_positive:
  assumes ev: "space_dimen st \<le> length ev"
    and V: "has_shape d k V" and d: "0 < d" and k: "space_dimen st \<le> k"
    and pos: "\<forall>i < space_dimen st. 0 < ev ! i"
  shows "set_Hessian st ev V cutoff_arg e =
           Returns (st\<lparr>eigvals := Some (take (space_dimen st) ev),
                      eigvects := Some (map (take (space_dimen st)) V),
                      scaling := Some (map (\<lambda>x. x powr (- e)) (take (space_dimen st) ev)),
                      A := map (\<lambda>i. map (\<lambda>j. ev ! i powr (- e) * V ! j ! i) [0..<d])
                             [0..<space_dimen st],
                      Ainv := map (\<lambda>j. map (\<lambda>i. V ! j ! i * ev ! i powr e)
                                [0..<space_dimen st]) [0..<d]\<rparr>)"
proof -
  let ?M = "space_dimen st"
  let ?evals = "take ?M ev"
  let ?evects = "map (take ?M) V"
  let ?scal = "map (\<lambda>x. x powr (- e)) ?evals"
  have lenV: "length V = d" and rowV: "\<And>j. j < d \<Longrightarrow> length (V ! j) = k"
    using V by (simp_all add: has_shape_def)
  have pos': "\<forall>x \<in> set ?evals. 0 < x"
    using pos ev by (auto simp: in_set_conv_nth)
  have scal: "foldr (\<lambda>x acc. and_then (np_power x (- e))
                 (\<lambda>y. and_then acc (\<lambda>ys. Returns (y # ys)))) ?evals (Returns [])
              = Returns ?scal"
    by (rule powers_of_positive [OF pos'])
  have nz: "\<forall>x \<in> set ?scal. x \<noteq> 0" using pos' by auto
  have inv: "foldr (\<lambda>x acc. and_then (np_divide 1 x)
                 (\<lambda>y. and_then acc (\<lambda>ys. Returns (y # ys)))) ?scal (Returns [])
              = Returns (map (\<lambda>x. 1 / x) ?scal)"
    by (rule inverses_of_nonzero [OF nz])
  have len_scal: "length ?scal = ?M" using ev by simp
  have "V \<noteq> []" using lenV d by auto
  then have "ncols ?evects = length (take ?M (V ! 0))"
    by (cases V) (simp_all add: ncols_def)
  then have m: "ncols ?evects = ?M" using rowV [OF d] k by simp
  have A_eq: "map (\<lambda>i. map (\<lambda>j. stretched ?scal i * stretched (?evects ! j) i)
                 [0..<length ?evects]) [0..<?M]
              = map (\<lambda>i. map (\<lambda>j. ev ! i powr (- e) * V ! j ! i) [0..<d]) [0..<?M]"
    using ev lenV rowV k by (auto simp: stretched_nth)
  have Ainv_eq: "map (\<lambda>j. map (\<lambda>i. stretched (map (\<lambda>x. 1 / x) ?scal) i
                    * stretched (?evects ! j) i) [0..<?M]) [0..<length ?evects]
              = map (\<lambda>j. map (\<lambda>i. V ! j ! i * ev ! i powr e) [0..<?M]) [0..<d]"
    using ev lenV rowV k by (auto simp: stretched_nth powr_minus divide_inverse)
  show ?thesis
    unfolding set_Hessian_def Let_def scal and_then.simps len_scal m inv
    by (simp only: A_eq Ainv_eq if_False simp_thms if_True split: if_split)
qed

lemma HessCMAES_init_cutoff:
  assumes "HessCMAES_init space_dimen_arg population_size cutoff_arg init_sigma init_code
             Aupdate_freq maximize_arg optim_params = Returns st"
  shows "space_dimen st = (case cutoff_arg of None \<Rightarrow> space_dimen_arg | Some n \<Rightarrow> n)
       \<and> code_len st = space_dimen_arg"
  using assms unfolding HessCMAES_init_def Let_def
  by (auto simp: and_then_Returns split: if_splits)

text \<open>
  Claim C7, as amended. Let \<open>M\<close> be the cutoff of the instance, let at least \<open>M\<close>
  eigenvalues and eigenvectors be supplied, the eigenvectors as the columns of an array \<open>V\<close>
  with \<open>d \<ge> 1\<close> rows, and let the first \<open>M\<close> eigenvalues be positive. Then \<^verbatim>\<open>set_Hessian\<close>
  with the exponent \<open>e\<close> (\<open>0.4\<close> by default) stores \<open>A = diag(ev\<^sub>i\<^sup>-\<^sup>e) V\<^sup>T\<close> and
  \<open>Ainv = V diag(ev\<^sub>i\<^sup>e)\<close> over the first \<open>M\<close> eigenpairs, and \<open>A Ainv\<close> is the identity of
  size \<open>M\<close> when these eigenvectors are orthonormal.
\<close>

theorem set_Hessian_factor_pair:
  assumes "space_dimen st \<le> length ev"
    and "has_shape d k V" and "0 < d" and "space_dimen st \<le> k"
    and "\<forall>i < space_dimen st. 0 < ev ! i"
  shows "\<exists>st'. set_Hessian st ev V cutoff_arg e = Returns st'
           \<and> A st' = map (\<lambda>i. map (\<lambda>j. ev ! i powr (- e) * V ! j ! i) [0..<d])
                        [0..<space_dimen st]
           \<and> Ainv st' = map (\<lambda>j. map (\<lambda>i. V ! j ! i * ev ! i powr e) [0..<space_dimen st])
                           [0..<d]
           \<and> ((\<forall>i < space_dimen st. \<forall>l < space_dimen st.
                  (\<Sum>j<d. V ! j ! i * V ! j ! l) = (if i = l then 1 else 0))
                \<longrightarrow> mat_mul (A st') (Ainv st') = eye (space_dimen st))"
proof -
  let ?M = "space_dimen st"
  define F where "F = map (\<lambda>i. map (\<lambda>j. ev ! i powr (- e) * V ! j ! i) [0..<d]) [0..<?M]"
  define G where "G = map (\<lambda>j. map (\<lambda>i. V ! j ! i * ev ! i powr e) [0..<?M]) [0..<d]"
  define st' where "st' = st\<lparr>eigvals := Some (take ?M ev), eigvects := Some (map (take ?M) V),
      scaling := Some (map (\<lambda>x. x powr (- e)) (take ?M ev)), A := F, Ainv := G\<rparr>"
  have run: "set_Hessian st ev V cutoff_arg e = Returns st'"
    unfolding st'_def F_def G_def by (rule set_Hessian_positive [OF assms])
  have shF: "has_shape ?M d F" by (auto simp: F_def has_shape_def)
  have shG: "has_shape d ?M G" by (auto simp: G_def has_shape_def)
  have prod: "mat_mul F G = eye ?M"
    if orth: "\<forall>i < ?M. \<forall>l < ?M. (\<Sum>j<d. V ! j ! i * V ! j ! l) = (if i = l then 1 else 0)"
  proof (rule mat_eqI [OF mat_mul_shape [OF shF shG assms(3)] eye_shape])
    fix i l assume i: "i < ?M" and l: "l < ?M"
    have "mat_mul F G ! i ! l = (\<Sum>j<d. F ! i ! j * G ! j ! l)"
      by (rule mat_mul_nth [OF shF shG assms(3) i l])
    also have "\<dots> = (\<Sum>j<d. (ev ! i powr (- e) * ev ! l powr e) * (V ! j ! i * V ! j ! l))"
      using i l by (intro sum.cong) (simp_all add: F_def G_def)
    also have "\<dots> = (ev ! i powr (- e) * ev ! l powr e) * (\<Sum>j<d. V ! j ! i * V ! j ! l)"
      by (simp add: sum_distrib_left)
    also have "\<dots> = (if i = l then 1 else 0)"
    proof (cases "i = l")
      case True
      have "0 < ev ! i" using assms(5) i by simp
      then have "ev ! i powr (- e) * ev ! i powr e = 1"
        by (simp add: powr_minus)
      then show ?thesis using orth i True by simp
    next
      case False
      then show ?thesis using orth i l by simp
    qed
    also have "\<dots> = eye ?M ! i ! l" using eye_nth [OF i l] by simp
    finally show "mat_mul F G ! i ! l = eye ?M ! i ! l" .
  qed
  have "A st' = F" "Ainv st' = G" by (simp_all add: st'_def)
  with run prod show ?thesis unfolding F_def G_def by auto
qed

theorem set_Hessian_factor_pair_witness:
  "\<exists>st'. set_Hessian hess_example [4] [[1]] None (2 / 5) = Returns st'
     \<and> A st' = [[4 powr (- (2 / 5))]] \<and> Ainv st' = [[4 powr (2 / 5)]]
     \<and> mat_mul (A st') (Ainv st') = eye 1"
proof -
  have h1: "space_dimen hess_example \<le> length [4 :: real]" by (simp add: hess_example_def)
  have h2: "has_shape 1 1 [[1]]" by (simp add: has_shape_def)
  have h3: "(0 :: nat) < 1" by simp
  have h4: "space_dimen hess_example \<le> 1" by (simp add: hess_example_def)
  have h5: "\<forall>i < space_dimen hess_example. 0 < [4 :: real] ! i" by (simp add: hess_example_def)
  have M: "space_dimen hess_example = 1" by (simp add: hess_example_def)
  show ?thesis
    using set_Hessian_factor_pair [OF h1 h2 h3 h4 h5, of None "2 / 5"]
    by (auto simp: M)
qed

text \<open>
  An eigenvalue that is zero breaks the claim: \<open>0\<close> to the power \<open>-0.4\<close> is no real number,
  although the single eigenvector is a unit vector.
\<close>

theorem zero_eigenvalue_counterexample:
  "space_dimen hess_example = 1 \<and> has_shape 1 1 [[1]]
   \<and> (\<Sum>j<1. [[1 :: real]] ! j ! 0 * [[1]] ! j ! 0) = 1
   \<and> set_Hessian hess_example [0] [[1]] None (2 / 5) = NonFinite"
  by (simp add: hess_example_def has_shape_def set_Hessian_def np_power_def)

section \<open>The Cholesky engine: construction and single generations\<close>

lemma and_then_ReturnsE:
  assumes "and_then m f = Returns y"
  obtains x where "m = Returns x" and "f x = Returns y"
  using assms by (cases m) simp_all



lemma cma_example_constructed:
  "CholeskyCMAES_init 1 (Some 2) 3 None (Some 10) True Map.empty = Returns cma_example"
  by (simp add: CholeskyCMAES_init_def cma_example_def np_div_vec_def np_divide_def np_sqrt_def
      zeros_def eye_def Let_def)

lemma default_c1_dimension_one: "0 < 2 / (1 + sqrt 2)\<^sup>2" "2 / (1 + sqrt 2)\<^sup>2 < (1 :: real)"
proof -
  have "1 < sqrt 2" by simp
  then have "2 < 1 + sqrt 2" by simp
  then have "2\<^sup>2 < (1 + sqrt 2)\<^sup>2" by (intro power_strict_mono) simp_all
  then have gt: "2 < (1 + sqrt 2)\<^sup>2" by simp
  have pos: "0 < (1 + sqrt 2)\<^sup>2" using gt by linarith
  show "0 < 2 / (1 + sqrt 2)\<^sup>2" using pos by (intro divide_pos_pos) simp_all
  show "2 / (1 + sqrt 2)\<^sup>2 < (1 :: real)" using gt pos by (simp add: divide_less_eq)
qed

subsection \<open>The step size\<close>










lemmas array_evaluation =
  argsort_def Let_def np_div_vec_def take_rows_def matmul_row_def vec_mat_def ncols_def dot_def
  col_def add_row_def mat_mul_def mat_scale_def scale_def vec_add_def np_sqrt_def np_divide_def
  py_sqrt_def py_divide_def norm2_def


lemma cs_override_example_constructed:
  "CholeskyCMAES_init 1 (Some 2) 3 None (Some 10) True [''cs'' \<mapsto> 3] = Returns cs_override_example"
  by (simp add: CholeskyCMAES_init_def cs_override_example_def np_div_vec_def np_divide_def
      np_sqrt_def zeros_def eye_def Let_def)


subsection \<open>The refresh inside a generation\<close>

lemma CholeskyCMAES_step_refreshes:
  assumes "refresh_due st" and "CholeskyCMAES_step_simple st scores codes z = Returns (st', Y)"
  shows "refresh (c1 st) (pc st') (A st) (Ainv st) = Returns (A st', Ainv st')"
proof -
  have later: "u_istep st \<noteq> 0"
    and due: "real (counteval st) - real (eigeneval st) > update_crit st"
    using assms(1) by (simp_all add: refresh_due_def)
  show ?thesis
    using assms(2) unfolding CholeskyCMAES_step_simple_def Let_def if_not_P [OF later] if_P [OF due]
    apply (elim and_then_ReturnsE)
    apply (simp split: prod.splits)
    by auto
qed

lemma CholeskyCMAES_torch_step_refreshes:
  assumes "refresh_due st"
    and "CholeskyCMAES_torch_step_simple st scores codes z = Returns (st', Y)"
  shows "refresh_torch (c1 st) (pc st') (A st) (Ainv st) = Returns (A st', Ainv st')"
proof -
  have later: "u_istep st \<noteq> 0"
    and due: "real (counteval st) - real (eigeneval st) > update_crit st"
    using assms(1) by (simp_all add: refresh_due_def)
  show ?thesis
    using assms(2)
    unfolding CholeskyCMAES_torch_step_simple_def Let_def if_not_P [OF later] if_P [OF due]
    apply (elim and_then_ReturnsE)
    apply (simp split: prod.splits)
    by auto
qed

lemma CholeskyCMAES_step_keeps_factor:
  assumes "\<not> refresh_due st" and "CholeskyCMAES_step_simple st scores codes z = Returns (st', Y)"
  shows "A st' = A st \<and> Ainv st' = Ainv st"
proof (cases "u_istep st = 0")
  case True
  show ?thesis
    using assms(2) unfolding CholeskyCMAES_step_simple_def Let_def if_P [OF True]
    apply (elim and_then_ReturnsE)
    apply (simp split: option.splits)
    by (auto elim!: and_then_ReturnsE)
next
  case False
  then have calm: "\<not> real (counteval st) - real (eigeneval st) > update_crit st"
    using assms(1) by (simp add: refresh_due_def)
  show ?thesis
    using assms(2)
    unfolding CholeskyCMAES_step_simple_def Let_def if_not_P [OF False] if_not_P [OF calm]
    apply (elim and_then_ReturnsE)
    by auto
qed

lemma refresh_torch_zero_normalizer:
  assumes "dot (vec_mat p G) (vec_mat p G) = 0" and "c < 1"
  shows "refresh_torch c p F G = Raises ZeroDivisionError"
  using assms by (simp add: refresh_torch_def py_sqrt_def py_divide_def)

text \<open>
  The claim fails on the numpy engine with a path that stays at zero, as it does for the
  whole run of an instance made with \<^verbatim>\<open>optim_params={"cc": 0}\<close>. At the first refresh, in the
  twelfth call of \<^verbatim>\<open>step_simple\<close>, the normalizer is zero; the refresh is neither skipped
  nor answered with an exception, and the factor pair is computed as \<open>0 / 0\<close>.
\<close>

theorem zero_path_refresh_counterexample:
  "refresh_due frozen_path_example
   \<and> CholeskyCMAES_step_simple frozen_path_example [0, 0] [[0], [0]] [[0], [0]] = NonFinite"
  using default_c1_dimension_one
  by (simp add: refresh_due_def CholeskyCMAES_step_simple_def frozen_path_example_def
      array_evaluation refresh_def)

subsection \<open>What the constructor establishes\<close>







subsection \<open>A first generation with fewer codes than parents\<close>


lemma argsort_ascending: "sorted (map (\<lambda>i. xs ! i) (argsort xs))"
  unfolding argsort_def by (rule sorted_sort_key)


lemma vec_mat_length_rows:
  assumes "X \<noteq> []" and "\<forall>row \<in> set X. length row = n"
  shows "length (vec_mat w X) = n"
  using assms by (cases X) (simp_all add: vec_mat_def ncols_def)



section \<open>The engine without factor and the torch engine with the identity\<close>

lemma map_outcome_and_then:
  "map_outcome f (and_then m g) = and_then m (\<lambda>x. map_outcome f (g x))"
  by (cases m) simp_all

lemma and_then_cong_Returns:
  assumes "\<And>x. m = Returns x \<Longrightarrow> f x = g x"
  shows "and_then m f = and_then m g"
  using assms by (cases m) simp_all

lemma truncate_fields:
  "space_dimen (cma_noA.truncate s) = space_dimen s"
  "cma_noA.maximize (cma_noA.truncate s) = cma_noA.maximize s"
  "lambda (cma_noA.truncate s) = lambda s"
  "mu (cma_noA.truncate s) = mu s"
  "weights (cma_noA.truncate s) = weights s"
  "mueff (cma_noA.truncate s) = mueff s"
  "sigma (cma_noA.truncate s) = sigma s"
  "cc (cma_noA.truncate s) = cc s"
  "cs (cma_noA.truncate s) = cs s"
  "c1 (cma_noA.truncate s) = c1 s"
  "damps (cma_noA.truncate s) = damps s"
  "init_x (cma_noA.truncate s) = init_x s"
  "xmean (cma_noA.truncate s) = xmean s"
  "xold (cma_noA.truncate s) = xold s"
  "pc (cma_noA.truncate s) = pc s"
  "ps (cma_noA.truncate s) = ps s"
  "eigeneval (cma_noA.truncate s) = eigeneval s"
  "counteval (cma_noA.truncate s) = counteval s"
  "update_crit (cma_noA.truncate s) = update_crit s"
  "chiN (cma_noA.truncate s) = chiN s"
  "u_istep (cma_noA.truncate s) = u_istep s"
  "randz (cma_noA.truncate s) = randz s"
  by (simp_all add: cma_noA.defs)

lemma dot_unit_column:
  assumes "j < length r"
  shows "dot r (map (\<lambda>i. if i = j then 1 else 0) [0..<length r]) = r ! j"
proof -
  have "dot r (map (\<lambda>i. if i = j then 1 else 0) [0..<length r])
          = (\<Sum>k<length r. r ! k * (if k = j then 1 else 0))"
    by (subst dot_sum [of r "length r"]) simp_all
  also have "\<dots> = (\<Sum>k<length r. if k = j then r ! k else 0)"
    by (intro sum.cong) simp_all
  also have "\<dots> = r ! j" using assms by simp
  finally show ?thesis .
qed

lemma col_eye: "j < n \<Longrightarrow> col (eye n) j = map (\<lambda>i. if i = j then 1 else 0) [0..<n]"
  by (simp add: col_def eye_def)

lemma vec_mat_eye:
  assumes "length r = n"
  shows "vec_mat r (eye n) = r"
proof (cases "n = 0")
  case True
  then show ?thesis using assms by (simp add: vec_mat_def eye_def ncols_def)
next
  case False
  then have nc: "ncols (eye n) = n" using has_shape_ncols [OF eye_shape] by simp
  show ?thesis
  proof (rule nth_equalityI)
    show "length (vec_mat r (eye n)) = length r" using assms nc by (simp add: vec_mat_def)
  next
    fix j assume "j < length (vec_mat r (eye n))"
    then have j: "j < n" using nc by (simp add: vec_mat_def)
    have "vec_mat r (eye n) ! j = dot r (col (eye n) j)" using j nc by (simp add: vec_mat_def)
    also have "\<dots> = r ! j" using dot_unit_column [of j r] j assms by (simp add: col_eye)
    finally show "vec_mat r (eye n) ! j = r ! j" .
  qed
qed

lemma mat_mul_eye:
  assumes "\<forall>row \<in> set X. length row = n"
  shows "mat_mul X (eye n) = X"
  unfolding mat_mul_def using assms by (simp add: vec_mat_eye map_idI)

lemma and_then_assoc:
  "and_then (and_then m f) g = and_then m (\<lambda>x. and_then (f x) g)"
  by (cases m) simp_all

lemma and_then_cong:
  assumes "m = m'" and "\<And>x. m' = Returns x \<Longrightarrow> f x = g x"
  shows "and_then m f = and_then m' g"
  using assms by (cases m') simp_all

lemma truncate_update:
  "cma_noA.truncate (s\<lparr>xmean := m\<rparr>) = (cma_noA.truncate s)\<lparr>xmean := m\<rparr>"
  "cma_noA.truncate (s\<lparr>randz := r, counteval := c, u_istep := i\<rparr>)
     = (cma_noA.truncate s)\<lparr>randz := r, counteval := c, u_istep := i\<rparr>"
  "cma_noA.truncate (s\<lparr>xold := xo, xmean := m, ps := p1, pc := p2, sigma := sg\<rparr>)
     = (cma_noA.truncate s)\<lparr>xold := xo, xmean := m, ps := p1, pc := p2, sigma := sg\<rparr>"
  by (simp_all add: cma_noA.defs)

lemma noCMA_first_generation:
  assumes "u_istep s = 0" and "A s = eye (space_dimen s)"
    and "\<forall>row \<in> set z. length row = space_dimen s"
  shows "CholeskyCMAES_torch_noCMA_step_simple (cma_noA.truncate s) scores codes z
           = map_outcome (\<lambda>(s', Y). (cma_noA.truncate s', Y))
               (CholeskyCMAES_torch_step_simple s scores codes z)"
  unfolding CholeskyCMAES_torch_noCMA_step_simple_def CholeskyCMAES_torch_step_simple_def Let_def
    truncate_fields if_P [OF assms(1)] map_outcome_and_then and_then_assoc
  by (cases "init_x s")
     (simp_all add: and_then_assoc truncate_fields truncate_update assms(2)
        mat_mul_eye [OF assms(3)] cong: and_then_cong)
lemma noCMA_later_generation:
  assumes later: "u_istep s \<noteq> 0" and id: "A s = eye (space_dimen s)"
    and calm: "\<not> real (counteval s) - real (eigeneval s) > update_crit s"
    and w: "weights s \<noteq> []"
    and rz: "\<forall>rz. randz s = Some rz \<longrightarrow> (\<forall>row \<in> set rz. length row = space_dimen s)"
    and z: "\<forall>row \<in> set z. length row = space_dimen s"
  shows "CholeskyCMAES_torch_noCMA_step_simple (cma_noA.truncate s) scores codes z
           = map_outcome (\<lambda>(s', Y). (cma_noA.truncate s', Y))
               (CholeskyCMAES_torch_step_simple s scores codes z)"
  unfolding CholeskyCMAES_torch_noCMA_step_simple_def CholeskyCMAES_torch_step_simple_def Let_def
    truncate_fields if_not_P [OF later] if_not_P [OF calm] map_outcome_and_then and_then_assoc
  apply (rule and_then_cong [OF refl])+
  subgoal premises p for chosen m zchosen randzw k_s k_c rate ratio
  proof -
    obtain drawn where drawn: "randz s = Some drawn"
      and zc: "take_rows drawn
                 (take (mu s) (if cma_noA.maximize s then argsort (map uminus scores)
                               else argsort scores)) = Returns zchosen"
      using p(3) by (cases "randz s") simp_all
    have rows: "\<forall>row \<in> set zchosen. length row = space_dimen s"
      using zc rz drawn by (auto simp: take_rows_def split: if_splits)
    have len: "length (weights s) = length zchosen" and prod: "randzw = vec_mat (weights s) zchosen"
      using p(4) by (auto simp: matmul_row_def split: if_splits)
    have "zchosen \<noteq> []" using len w by auto
    then have "length randzw = space_dimen s"
      unfolding prod by (rule vec_mat_length_rows [OF _ rows])
    then have same: "vec_mat randzw (eye (space_dimen s)) = randzw" by (rule vec_mat_eye)
    show ?thesis
      by (simp add: same truncate_fields truncate_update id mat_mul_eye [OF z])
  qed
  done
lemma noCMA_generation:
  assumes "A s = eye (space_dimen s)" and "\<not> refresh_due s" and "weights s \<noteq> []"
    and "\<forall>drawn. randz s = Some drawn \<longrightarrow> (\<forall>row \<in> set drawn. length row = space_dimen s)"
    and "\<forall>row \<in> set z. length row = space_dimen s"
  shows "CholeskyCMAES_torch_noCMA_step_simple (cma_noA.truncate s) scores codes z
           = map_outcome (\<lambda>(s', Y). (cma_noA.truncate s', Y))
               (CholeskyCMAES_torch_step_simple s scores codes z)"
proof (cases "u_istep s = 0")
  case True
  then show ?thesis by (rule noCMA_first_generation [OF _ assms(1,5)])
next
  case False
  then have "\<not> real (counteval s) - real (eigeneval s) > update_crit s"
    using assms(2) by (simp add: refresh_due_def)
  with False show ?thesis by (rule noCMA_later_generation [OF _ assms(1) _ assms(3,4,5)])
qed

lemma CholeskyCMAES_torch_step_keeps:
  assumes "\<not> refresh_due s" and "CholeskyCMAES_torch_step_simple s scores codes z = Returns (s', Y)"
  shows "A s' = A s" and "Ainv s' = Ainv s" and "weights s' = weights s"
    and "space_dimen s' = space_dimen s" and "randz s' = Some z"
proof -
  have "A s' = A s \<and> Ainv s' = Ainv s \<and> weights s' = weights s
          \<and> space_dimen s' = space_dimen s \<and> randz s' = Some z"
  proof (cases "u_istep s = 0")
    case True
    show ?thesis
      using assms(2) unfolding CholeskyCMAES_torch_step_simple_def Let_def if_P [OF True]
      apply (elim and_then_ReturnsE)
      apply (simp split: option.splits)
      by (auto elim!: and_then_ReturnsE)
  next
    case False
    then have calm: "\<not> real (counteval s) - real (eigeneval s) > update_crit s"
      using assms(1) by (simp add: refresh_due_def)
    show ?thesis
      using assms(2)
      unfolding CholeskyCMAES_torch_step_simple_def Let_def if_not_P [OF False] if_not_P [OF calm]
      apply (elim and_then_ReturnsE)
      by auto
  qed
  then show "A s' = A s" and "Ainv s' = Ainv s" and "weights s' = weights s"
    and "space_dimen s' = space_dimen s" and "randz s' = Some z"
    by simp_all
qed

lemma noCMA_trace:
  assumes "A s = eye (space_dimen s)" and "weights s \<noteq> []"
    and "\<forall>drawn. randz s = Some drawn \<longrightarrow> (\<forall>row \<in> set drawn. length row = space_dimen s)"
    and "\<forall>(scores, codes, z) \<in> set inputs. \<forall>row \<in> set z. length row = space_dimen s"
    and "refresh_never_due s inputs"
  shows "trace_CholeskyCMAES_torch_noCMA (cma_noA.truncate s) inputs
           = map_outcome (\<lambda>(s', Ys). (cma_noA.truncate s', Ys))
               (trace_CholeskyCMAES_torch s inputs)"
  using assms
proof (induction inputs arbitrary: s)
  case Nil
  then show ?case by simp
next
  case (Cons input inputs)
  obtain scores codes z where input: "input = (scores, codes, z)" by (cases input) auto
  have zrows: "\<forall>row \<in> set z. length row = space_dimen s"
    using Cons.prems(4) by (simp add: input)
  have calm: "\<not> refresh_due s" using Cons.prems(5) by (simp add: input)
  note gen = noCMA_generation [OF Cons.prems(1) calm Cons.prems(2,3) zrows, of scores codes]
  show ?case
  proof (cases "CholeskyCMAES_torch_step_simple s scores codes z")
    case (Returns r)
    obtain s' Y where r: "r = (s', Y)" by (cases r) auto
    note step = Returns [unfolded r]
    note keep = CholeskyCMAES_torch_step_keeps [OF calm step]
    have never: "refresh_never_due s' inputs"
      using Cons.prems(5) by (simp add: input step)
    have rest: "trace_CholeskyCMAES_torch_noCMA (cma_noA.truncate s') inputs
                  = map_outcome (\<lambda>(s', Ys). (cma_noA.truncate s', Ys))
                      (trace_CholeskyCMAES_torch s' inputs)"
    proof (rule Cons.IH [OF _ _ _ _ never])
      show "A s' = eye (space_dimen s')" using keep Cons.prems(1) by simp
      show "weights s' \<noteq> []" using keep Cons.prems(2) by simp
      show "\<forall>drawn. randz s' = Some drawn \<longrightarrow> (\<forall>row \<in> set drawn. length row = space_dimen s')"
        using keep zrows by simp
      show "\<forall>(scores, codes, z) \<in> set inputs. \<forall>row \<in> set z. length row = space_dimen s'"
        using Cons.prems(4) keep by simp
    qed
    show ?thesis
      unfolding input trace_CholeskyCMAES_torch_noCMA.simps trace_CholeskyCMAES_torch.simps
        gen step
      by (cases "trace_CholeskyCMAES_torch s' inputs") (auto simp: rest)
  next
    case (Raises e)
    show ?thesis
      unfolding input trace_CholeskyCMAES_torch_noCMA.simps trace_CholeskyCMAES_torch.simps
        gen Raises
      by simp
  next
    case NonFinite
    show ?thesis
      unfolding input trace_CholeskyCMAES_torch_noCMA.simps trace_CholeskyCMAES_torch.simps
        gen NonFinite
      by simp
  qed
qed

lemma CholeskyCMAES_torch_noCMA_init_fields:
  assumes "CholeskyCMAES_torch_noCMA_init N population_size init_sigma init_code Aupdate_freq
             maximize_arg optim_params = Returns t"
  shows "space_dimen t = N \<and> weights t \<noteq> [] \<and> randz t = None \<and> u_istep t = 0
       \<and> sigma t = init_sigma"
  using assms unfolding CholeskyCMAES_torch_noCMA_init_def Let_def
  apply (elim and_then_ReturnsE)
  subgoal premises p for lam w mueff_v root init_x_v crit
  proof -
    have N: "N \<noteq> 0" using p(7) by (auto split: if_splits)
    have f: "space_dimen t = N" "weights t = w" "randz t = None" "u_istep t = 0"
      "sigma t = init_sigma"
      using p(7) N by auto
    have "w \<noteq> []"
    proof
      assume "w = []"
      then show False using p(3) by (simp add: np_divide_def)
    qed
    then show ?thesis using f by simp
  qed
  done

lemma CholeskyCMAES_torch_init_ReturnsD:
  assumes "CholeskyCMAES_torch_init N population_size init_sigma init_code Aupdate_freq
             maximize_arg optim_params = Returns s"
  shows "CholeskyCMAES_torch_noCMA_init N population_size init_sigma init_code Aupdate_freq
           maximize_arg optim_params = Returns (cma_noA.truncate s)"
    and "A s = eye N" and "Ainv s = eye N" and "space_dimen s = N" and "weights s \<noteq> []"
    and "randz s = None"
proof -
  obtain t where t: "CholeskyCMAES_torch_noCMA_init N population_size init_sigma init_code
                       Aupdate_freq maximize_arg optim_params = Returns t"
    and s: "s = cma_noA.extend t (cma.fields (eye N) (eye N))"
    using assms unfolding CholeskyCMAES_torch_init_def by (auto elim!: and_then_ReturnsE)
  have tr: "cma_noA.truncate s = t" unfolding s by (simp add: cma_noA.defs cma.defs)
  note f = CholeskyCMAES_torch_noCMA_init_fields [OF t]
  show "CholeskyCMAES_torch_noCMA_init N population_size init_sigma init_code Aupdate_freq
           maximize_arg optim_params = Returns (cma_noA.truncate s)"
    using t tr by simp
  show "A s = eye N" "Ainv s = eye N" unfolding s by (simp_all add: cma_noA.defs cma.defs)
  show "space_dimen s = N" "weights s \<noteq> []" "randz s = None"
    using f unfolding s by (simp_all add: cma_noA.defs cma.defs)
qed

text \<open>
  Claim C8. Let the torch engine and the engine without factor be constructed with the same
  arguments, and let both be run on the same scores, codes and draws, generation after
  generation, the draws having the dimension of the engine. If no call of the torch engine
  meets the refresh condition, then the run of the engine without factor ends as the run of
  the torch engine does, with the same exception if there is one, and otherwise with the same
  codes in every generation and with the same instance but for the factor pair, which the
  torch engine still holds as the identity.
\<close>

theorem factor_disabled_engine_agrees_with_identity_factor:
  assumes "CholeskyCMAES_torch_init N population_size init_sigma init_code Aupdate_freq
             maximize_arg optim_params = Returns s"
    and "\<forall>(scores, codes, z) \<in> set inputs. \<forall>row \<in> set z. length row = N"
    and "refresh_never_due s inputs"
  shows "CholeskyCMAES_torch_noCMA_init N population_size init_sigma init_code Aupdate_freq
           maximize_arg optim_params = Returns (cma_noA.truncate s)
       \<and> A s = eye N \<and> Ainv s = eye N
       \<and> trace_CholeskyCMAES_torch_noCMA (cma_noA.truncate s) inputs
           = map_outcome (\<lambda>(s', Ys). (cma_noA.truncate s', Ys))
               (trace_CholeskyCMAES_torch s inputs)
       \<and> (\<forall>s' Ys. trace_CholeskyCMAES_torch s inputs = Returns (s', Ys)
             \<longrightarrow> A s' = eye N \<and> Ainv s' = eye N)"
proof -
  note D = CholeskyCMAES_torch_init_ReturnsD [OF assms(1)]
  have id: "A s = eye (space_dimen s)" using D(2,4) by simp
  have drawn: "\<forall>drawn. randz s = Some drawn
                 \<longrightarrow> (\<forall>row \<in> set drawn. length row = space_dimen s)"
    using D(6) by simp
  have zs: "\<forall>(scores, codes, z) \<in> set inputs. \<forall>row \<in> set z. length row = space_dimen s"
    using assms(2) D(4) by simp
  have run: "trace_CholeskyCMAES_torch_noCMA (cma_noA.truncate s) inputs
           = map_outcome (\<lambda>(s', Ys). (cma_noA.truncate s', Ys))
               (trace_CholeskyCMAES_torch s inputs)"
    by (rule noCMA_trace [OF id D(5) drawn zs assms(3)])
  have keep: "A s' = A s \<and> Ainv s' = Ainv s"
    if "refresh_never_due s inputs" "trace_CholeskyCMAES_torch s inputs = Returns (s', Ys)"
    for s s' Ys
    using that
  proof (induction inputs arbitrary: s Ys)
    case Nil
    then show ?case by simp
  next
    case (Cons input inputs)
    obtain scores codes z where input: "input = (scores, codes, z)" by (cases input) auto
    have calm: "\<not> refresh_due s" using Cons.prems(1) by (simp add: input)
    from Cons.prems(2) obtain s1 Y Ys1 where
      step: "CholeskyCMAES_torch_step_simple s scores codes z = Returns (s1, Y)"
      and rest: "trace_CholeskyCMAES_torch s1 inputs = Returns (s', Ys1)"
      unfolding input by (auto elim!: and_then_ReturnsE)
    have never: "refresh_never_due s1 inputs" using Cons.prems(1) by (simp add: input step)
    show ?case
      using Cons.IH [OF never rest] CholeskyCMAES_torch_step_keeps(1,2) [OF calm step] by simp
  qed
  show ?thesis using D(1,2,3) run keep [OF assms(3)] by auto
qed

lemma cma_example_constructed_torch:
  "CholeskyCMAES_torch_init 1 (Some 2) 3 None (Some 10) True Map.empty = Returns cma_example"
  by (simp add: CholeskyCMAES_torch_init_def CholeskyCMAES_torch_noCMA_init_def cma_example_def
      np_div_vec_def np_divide_def py_sqrt_def zeros_def eye_def Let_def cma_noA.defs cma.defs)

theorem factor_disabled_engine_agrees_with_identity_factor_witness:
  "CholeskyCMAES_torch_init 1 (Some 2) 3 None (Some 10) True Map.empty = Returns cma_example
   \<and> trace_CholeskyCMAES_torch cma_example
         [([1, 2], [[1], [2]], [[0], [0]]), ([1, 2], [[2], [2]], [[0], [0]])]
       = Returns (cma_example\<lparr>xold := [2], xmean := [2], sigma := 3 * exp (- (1 / 3)),
                    randz := Some [[0], [0]], counteval := 4, u_istep := 2\<rparr>,
                  [[[2], [2]], [[2], [2]]])
   \<and> trace_CholeskyCMAES_torch_noCMA (cma_noA.truncate cma_example)
         [([1, 2], [[1], [2]], [[0], [0]]), ([1, 2], [[2], [2]], [[0], [0]])]
       = Returns (cma_noA.truncate
                    (cma_example\<lparr>xold := [2], xmean := [2], sigma := 3 * exp (- (1 / 3)),
                       randz := Some [[0], [0]], counteval := 4, u_istep := 2\<rparr>),
                  [[[2], [2]], [[2], [2]]])"
proof -
  let ?inputs = "[([1, 2], [[1], [2]], [[0], [0]]), ([1, 2], [[2], [2]], [[0 :: real], [0]])]"
  have h1: "CholeskyCMAES_torch_init 1 (Some 2) 3 None (Some 10) True Map.empty
              = Returns cma_example"
    by (rule cma_example_constructed_torch)
  have h2: "\<forall>(scores, codes, z) \<in> set ?inputs. \<forall>row \<in> set z. length row = 1" by simp
  have h3: "refresh_never_due cma_example ?inputs"
    by (simp add: refresh_due_def CholeskyCMAES_torch_step_simple_def cma_example_def
        array_evaluation)
  have run: "trace_CholeskyCMAES_torch cma_example ?inputs
       = Returns (cma_example\<lparr>xold := [2], xmean := [2], sigma := 3 * exp (- (1 / 3)),
                    randz := Some [[0], [0]], counteval := 4, u_istep := 2\<rparr>,
                  [[[2], [2]], [[2], [2]]])"
    by (simp add: CholeskyCMAES_torch_step_simple_def cma_example_def array_evaluation)
  show ?thesis
    using h1 run factor_disabled_engine_agrees_with_identity_factor [OF h1 h2 h3]
    by simp
qed

end
